theory Spec2Isabelle
  imports Complex_Main "HOL-Library.Sublist" "HOL-Library.Stream"
begin

section \<open>Python values used by generate\_id\_ner\_faker.py\<close>

text \<open>
  A Python \<open>str\<close> is a sequence of Unicode code points and \<open>len\<close> counts code points,
  so a string is a list of code points. ASCII literals are written with \<open>asc\<close>; the
  accented letters of the source's literals are given by their code point.
\<close>

type_synonym pychar = nat
type_synonym pystr = "pychar list"

definition asc :: "string \<Rightarrow> pystr" where
  "asc s = map of_char s"

datatype error = IndexError

text \<open>\<open>sub in s\<close> on strings: \<open>sub\<close> occurs as a contiguous substring of \<open>s\<close>.\<close>

fun py_in :: "pystr \<Rightarrow> pystr \<Rightarrow> bool" where
  "py_in sub [] = (sub = [])"
| "py_in sub (c # cs) = (prefix sub (c # cs) \<or> py_in sub cs)"

text \<open>
  \<open>s.replace(old, new)\<close>: the non-overlapping occurrences of \<open>old\<close> are replaced from
  left to right; an empty \<open>old\<close> matches before every character and at the end.
\<close>

fun replace_from :: "pystr \<Rightarrow> pystr \<Rightarrow> pystr \<Rightarrow> pystr" where
  "replace_from old new [] = []"
| "replace_from old new (c # cs) =
     (if prefix old (c # cs) then new @ replace_from old new (drop (length old - 1) cs)
      else c # replace_from old new cs)"

definition py_replace :: "pystr \<Rightarrow> pystr \<Rightarrow> pystr \<Rightarrow> pystr" where
  "py_replace s old new =
     (if old = [] then new @ concat (map (\<lambda>c. c # new) s) else replace_from old new s)"

text \<open>\<open>str.isspace\<close> on one code point, and \<open>str.strip()\<close>.\<close>

definition py_isspace :: "pychar \<Rightarrow> bool" where
  "py_isspace c =
     ((9 \<le> c \<and> c \<le> 13) \<or> (28 \<le> c \<and> c \<le> 32) \<or> c = 133 \<or> c = 160 \<or> c = 5760 \<or>
      (8192 \<le> c \<and> c \<le> 8202) \<or> c = 8232 \<or> c = 8233 \<or> c = 8239 \<or> c = 8287 \<or> c = 12288)"

definition py_strip :: "pystr \<Rightarrow> pystr" where
  "py_strip s = rev (dropWhile py_isspace (rev (dropWhile py_isspace s)))"

text \<open>
  \<open>s[i:j]\<close> with Python's rules: a negative index counts from the end, both indices are
  clamped to the string, and an empty range gives the empty string.
\<close>

definition slice_index :: "nat \<Rightarrow> int \<Rightarrow> nat" where
  "slice_index n i = (if i < 0 then nat (max 0 (int n + i)) else min n (nat i))"

definition py_slice :: "pystr \<Rightarrow> int \<Rightarrow> int \<Rightarrow> pystr" where
  "py_slice s i j =
     (let lo = slice_index (length s) i; hi = slice_index (length s) j
      in take (hi - lo) (drop lo s))"

text \<open>\<open>str(n)\<close> and the format \<open>{n:02d}\<close> for a non-negative integer.\<close>

definition digit_char :: "nat \<Rightarrow> pychar" where
  "digit_char d = 48 + d"

fun str_nat :: "nat \<Rightarrow> pystr" where
  "str_nat n = (if n < 10 then [digit_char n] else str_nat (n div 10) @ [digit_char (n mod 10)])"

declare str_nat.simps [simp del]

definition fmt_02d :: "nat \<Rightarrow> pystr" where
  "fmt_02d n = (if n < 10 then digit_char 0 # str_nat n else str_nat n)"

text \<open>A dict keeps insertion order: an association list, looked up by key.\<close>

type_synonym ('k, 'v) pydict = "('k \<times> 'v) list"

definition dict_get :: "('k, 'v) pydict \<Rightarrow> 'k \<Rightarrow> 'v \<Rightarrow> 'v" where
  "dict_get d k dflt = (case map_of d k of None \<Rightarrow> dflt | Some v \<Rightarrow> v)"

section \<open>The sources of randomness\<close>

text \<open>
  Every call of the \<open>random\<close> module takes the next raw value of one stream, in call
  order. \<open>random.random()\<close> is a 53-bit integer divided by \<open>2^53\<close>;
  \<open>random.choice\<close> and \<open>random.randint\<close> reduce the raw value to their range.
  The Faker backends have a random state of their own: what they return is the next
  element of a stream per method.
\<close>

record world =
  rand :: "nat stream"
  last_names :: "pystr stream"
  first_names :: "pystr stream"
  cities :: "pystr stream"
  birth_dates :: "(nat \<times> nat \<times> nat) stream"

type_synonym 'a result = "error + ('a \<times> world)"

definition bind_r :: "'a result \<Rightarrow> ('a \<Rightarrow> world \<Rightarrow> 'b result) \<Rightarrow> 'b result" where
  "bind_r m f = (case m of Inl e \<Rightarrow> Inl e | Inr (x, w) \<Rightarrow> f x w)"

definition random_float :: "nat \<Rightarrow> real" where
  "random_float k = real (k mod 2 ^ 53) / 2 ^ 53"

definition random_random :: "world \<Rightarrow> real \<times> world" where
  "random_random w = (random_float (shd (rand w)), w\<lparr>rand := stl (rand w)\<rparr>)"

definition random_choice :: "'a list \<Rightarrow> world \<Rightarrow> 'a result" where
  "random_choice seq w =
     (if seq = [] then Inl IndexError
      else Inr (seq ! (shd (rand w) mod length seq), w\<lparr>rand := stl (rand w)\<rparr>))"

definition random_randint :: "nat \<Rightarrow> nat \<Rightarrow> world \<Rightarrow> nat \<times> world" where
  "random_randint a b w = (a + shd (rand w) mod (b - a + 1), w\<lparr>rand := stl (rand w)\<rparr>)"

section \<open>The generator\<close>

record generator =
  noise_enabled :: bool
  global_prob :: real
  word_noise_prob :: real
  spacing_noise_prob :: real
  char_sub_prob :: real
  extra_char_prob :: real
  missing_char_prob :: real
  double_char_prob :: real
  word_replacements :: "(pystr, pystr list) pydict"
  spacing_errors :: "(pystr, pystr list) pydict"
  char_subs :: "(pystr, pystr) pydict"
  extra_chars :: "pystr list"
  field_typos :: "(pystr, pystr list) pydict"
  simple_probs :: "(pystr, real) pydict"
  bilingual_probs :: "(pystr, real) pydict"
  signature_noise :: "(pystr, (pystr, real) pydict) pydict"
  fakers :: nat
  str_upper :: "pystr \<Rightarrow> pystr"
  float_add :: "real \<Rightarrow> real \<Rightarrow> real"

text \<open>
  The probabilities are Python floats, each of them a real number. \<open>fakers\<close> is the
  number of Faker instances (an empty locale list is replaced by the default one; choosing
  among none raises). \<open>str_upper\<close> is Python's \<open>str.upper\<close>, whose Unicode case tables
  are not part of the repository: it is a parameter. So is \<open>float_add\<close>, the addition of
  two Python floats, which rounds the exact sum to a float: the running total of
  \<open>_weighted_choice\<close> is built with it, so that what is proved of the total holds
  whatever the rounding does.
\<close>

subsection \<open>\_weighted\_choice\<close>

text \<open>The loop of \<open>_weighted_choice\<close>; \<open>add\<close> is the float addition of \<open>cumulative += weight\<close>.\<close>

fun weighted_loop ::
  "(real \<Rightarrow> real \<Rightarrow> real) \<Rightarrow> real \<Rightarrow> real \<Rightarrow> (pystr, real) pydict \<Rightarrow> pystr option" where
  "weighted_loop add rand_val cumulative [] = None"
| "weighted_loop add rand_val cumulative ((choice, weight) # rest) =
     (let cumulative = add cumulative weight
      in if rand_val \<le> cumulative then Some choice
         else weighted_loop add rand_val cumulative rest)"

definition weighted_choice :: "generator \<Rightarrow> (pystr, real) pydict \<Rightarrow> world \<Rightarrow> pystr result" where
  "weighted_choice g choices_dict w =
     (let (rand_val, w) = random_random w
      in case weighted_loop (float_add g) rand_val 0 choices_dict of
           Some choice \<Rightarrow> Inr (choice, w)
         | None \<Rightarrow>
             (if choices_dict = [] then Inl IndexError
              else Inr (last (map fst choices_dict), w)))"

text \<open>
  The cumulative mass after the first \<open>i + 1\<close> options: their weights added one by one,
  in table order, to the running total \<open>c\<close>, with the float addition \<open>add\<close>. The loop
  starts from the total 0.
\<close>

definition cumulative_from ::
  "(real \<Rightarrow> real \<Rightarrow> real) \<Rightarrow> real \<Rightarrow> (pystr, real) pydict \<Rightarrow> nat \<Rightarrow> real" where
  "cumulative_from add c tbl i = foldl add c (map snd (take (Suc i) tbl))"

definition cumulative_mass :: "generator \<Rightarrow> (pystr, real) pydict \<Rightarrow> nat \<Rightarrow> real" where
  "cumulative_mass g tbl i = cumulative_from (float_add g) 0 tbl i"

text \<open>A world in which every source of randomness repeats one value: used in examples.\<close>

definition fixed_world :: "nat \<Rightarrow> world" where
  "fixed_world k =
     \<lparr>rand = sconst k, last_names = sconst (asc ''DUPONT''), first_names = sconst (asc ''MARIE''),
      cities = sconst (asc ''PARIS''), birth_dates = sconst (1, 2, 1990)\<rparr>"

text \<open>
  Two tables for the examples: masses summing to 1, and to one half. The sums of these
  floats are floats, so that float addition is exact on them.
\<close>

definition half_half :: "(pystr, real) pydict" where
  "half_half = [(asc ''RF '', 1 / 2), (asc ''none'', 1 / 2)]"

definition quarter_quarter :: "(pystr, real) pydict" where
  "quarter_quarter = [(asc ''RF '', 1 / 4), (asc ''none'', 1 / 4)]"

subsection \<open>\_set\_zero\_noise\<close>

definition set_zero_noise :: "generator \<Rightarrow> generator" where
  "set_zero_noise g =
     g\<lparr>noise_enabled := False, global_prob := 0, word_noise_prob := 0,
       spacing_noise_prob := 0, char_sub_prob := 0, extra_char_prob := 0,
       missing_char_prob := 0, double_char_prob := 0\<rparr>"

subsection \<open>\_apply\_character\_noise\<close>

text \<open>
  The loop over the characters of \<open>text\<close>, with the list \<open>result\<close> it appends to.
  \<open>char in self.char_subs and random.random() < ...\<close> draws only when the
  character has an entry.
\<close>

fun character_noise_loop ::
  "generator \<Rightarrow> pystr \<Rightarrow> pystr list \<Rightarrow> world \<Rightarrow> (pystr list) result" where
  "character_noise_loop g [] result w = Inr (result, w)"
| "character_noise_loop g (char # text) result w =
     (let (r_missing, w) = random_random w
      in if r_missing < missing_char_prob g then character_noise_loop g text result w
         else
           let (result, w) =
                 (case map_of (char_subs g) [char] of
                    None \<Rightarrow> (result @ [[char]], w)
                  | Some sub \<Rightarrow>
                      (let (r_sub, w) = random_random w
                       in if r_sub < char_sub_prob g then (result @ [sub], w)
                          else (result @ [[char]], w)));
               (r_double, w) = random_random w;
               result = (if r_double < double_char_prob g then result @ [[char]] else result);
               (r_extra, w) = random_random w
           in if r_extra < extra_char_prob g
              then (case random_choice (extra_chars g) w of
                      Inl e \<Rightarrow> Inl e
                    | Inr (extra, w) \<Rightarrow> character_noise_loop g text (result @ [extra]) w)
              else character_noise_loop g text result w)"

definition apply_character_noise :: "generator \<Rightarrow> pystr \<Rightarrow> world \<Rightarrow> pystr result" where
  "apply_character_noise g text w =
     bind_r (character_noise_loop g text [] w) (\<lambda>result w. Inr (concat result, w))"

subsection \<open>apply\_noise\<close>

text \<open>One of the two table loops of \<open>apply_noise\<close>, over the items in table order.\<close>

fun replace_loop :: "(pystr, pystr list) pydict \<Rightarrow> pystr \<Rightarrow> world \<Rightarrow> pystr result" where
  "replace_loop [] text w = Inr (text, w)"
| "replace_loop ((original, variants) # rest) text w =
     (if py_in original text
      then (case random_choice variants w of
              Inl e \<Rightarrow> Inl e
            | Inr (variant, w) \<Rightarrow> replace_loop rest (py_replace text original variant) w)
      else replace_loop rest text w)"

definition apply_noise :: "generator \<Rightarrow> pystr \<Rightarrow> bool \<Rightarrow> world \<Rightarrow> pystr result" where
  "apply_noise g text allow_noise w =
     (if \<not> noise_enabled g \<or> \<not> allow_noise then Inr (text, w)
      else
        let (r_global, w) = random_random w
        in if r_global > global_prob g then Inr (text, w)
           else
             let (r_word, w) = random_random w
             in bind_r (if r_word < word_noise_prob g
                        then replace_loop (word_replacements g) text w else Inr (text, w))
                  (\<lambda>text w.
                     let (r_spacing, w) = random_random w
                     in bind_r (if r_spacing < spacing_noise_prob g
                                then replace_loop (spacing_errors g) text w else Inr (text, w))
                          (\<lambda>text w.
                             let (r_char, w) = random_random w
                             in if r_char < char_sub_prob g + extra_char_prob g + missing_char_prob g
                                then apply_character_noise g text w
                                else Inr (text, w))))"

subsection \<open>apply\_field\_typo\<close>

definition apply_field_typo :: "generator \<Rightarrow> pystr \<Rightarrow> world \<Rightarrow> pystr result" where
  "apply_field_typo g field_text w =
     (case map_of (field_typos g) field_text of
        Some variants \<Rightarrow> random_choice variants w
      | None \<Rightarrow>
          (case find (\<lambda>(original, variants). py_in original field_text) (field_typos g) of
             Some (original, variants) \<Rightarrow>
               bind_r (random_choice variants w)
                 (\<lambda>variant w. Inr (py_replace field_text original variant, w))
           | None \<Rightarrow> apply_noise g field_text True w))"

subsection \<open>The per-character decisions, in words\<close>

text \<open>
  The specification's reading of one iteration: drop; else substitute, emit, duplicate
  the just-emitted string, insert a filler.
\<close>

definition spec_char_step :: "generator \<Rightarrow> pychar \<Rightarrow> world \<Rightarrow> (pystr list) result" where
  "spec_char_step g char w =
     (let (r_missing, w) = random_random w
      in if r_missing < missing_char_prob g then Inr ([], w)
         else
           let (emitted, w) =
                 (case map_of (char_subs g) [char] of
                    None \<Rightarrow> ([char], w)
                  | Some sub \<Rightarrow>
                      (let (r_sub, w) = random_random w
                       in (if r_sub < char_sub_prob g then sub else [char], w)));
               (r_double, w) = random_random w;
               duplicate = (if r_double < double_char_prob g then [emitted] else []);
               (r_extra, w) = random_random w
           in if r_extra < extra_char_prob g
              then bind_r (random_choice (extra_chars g) w)
                     (\<lambda>extra w. Inr ([emitted] @ duplicate @ [extra], w))
              else Inr ([emitted] @ duplicate, w))"

subsection \<open>Generators for the examples\<close>

text \<open>\<open>str.upper\<close> on ASCII strings.\<close>

definition upper_ascii :: "pystr \<Rightarrow> pystr" where
  "upper_ascii s = map (\<lambda>c. if 97 \<le> c \<and> c \<le> 122 then c - 32 else c) s"

text \<open>
  Noise enabled with every probability zero, empty tables, five locales. The examples add
  only floats whose exact sum is a float, where float addition is the exact one.
\<close>

definition quiet_generator :: generator where
  "quiet_generator =
     \<lparr>noise_enabled = True, global_prob = 0, word_noise_prob = 0, spacing_noise_prob = 0,
      char_sub_prob = 0, extra_char_prob = 0, missing_char_prob = 0, double_char_prob = 0,
      word_replacements = [], spacing_errors = [], char_subs = [],
      extra_chars = [asc '' '', asc ''.'', asc '','', asc ''-''], field_typos = [],
      simple_probs = [], bilingual_probs = [], signature_noise = [],
      fakers = 5, str_upper = upper_ascii, float_add = (+)\<rparr>"

text \<open>Every noise probability is zero.\<close>

definition all_noise_zero :: "generator \<Rightarrow> bool" where
  "all_noise_zero g =
     (global_prob g = 0 \<and> word_noise_prob g = 0 \<and> spacing_noise_prob g = 0 \<and>
      char_sub_prob g = 0 \<and> extra_char_prob g = 0 \<and> missing_char_prob g = 0 \<and>
      double_char_prob g = 0)"

text \<open>Substitution and duplication always fire: the letter O is read as the digit 0.\<close>

definition sub_generator :: generator where
  "sub_generator =
     quiet_generator\<lparr>global_prob := 1, char_sub_prob := 1, double_char_prob := 1,
       char_subs := [(asc ''O'', asc ''0'')]\<rparr>"

text \<open>A field-typo table with a key inside a label, and the clean preset on top of it.\<close>

definition typo_generator :: generator where
  "typo_generator = quiet_generator\<lparr>field_typos := [(asc ''Sexe'', [asc ''Sexc''])]\<rparr>"

text \<open>A table in which a label has an entry of its own and also contains another key.\<close>

definition two_tier_generator :: generator where
  "two_tier_generator =
     quiet_generator\<lparr>field_typos :=
       [(asc ''Sexe'', [asc ''Sexc'']), (asc '' Sexe : '', [asc '' SEXE : '', asc '' 5exe : ''])]\<rparr>"

subsection \<open>The field provider\<close>

text \<open>\<open>random.choice(list(self.fakers.values()))\<close>: the index of the chosen backend.\<close>

definition choose_faker :: "generator \<Rightarrow> world \<Rightarrow> nat result" where
  "choose_faker g w = random_choice [0..<fakers g] w"

definition faker_last_name :: "world \<Rightarrow> pystr \<times> world" where
  "faker_last_name w = (shd (last_names w), w\<lparr>last_names := stl (last_names w)\<rparr>)"

definition faker_first_name :: "world \<Rightarrow> pystr \<times> world" where
  "faker_first_name w = (shd (first_names w), w\<lparr>first_names := stl (first_names w)\<rparr>)"

definition faker_city :: "world \<Rightarrow> pystr \<times> world" where
  "faker_city w = (shd (cities w), w\<lparr>cities := stl (cities w)\<rparr>)"

definition faker_date_of_birth :: "world \<Rightarrow> (nat \<times> nat \<times> nat) \<times> world" where
  "faker_date_of_birth w = (shd (birth_dates w), w\<lparr>birth_dates := stl (birth_dates w)\<rparr>)"

subsection \<open>generate\_name, generate\_given\_names, generate\_city\<close>

definition generate_name :: "generator \<Rightarrow> world \<Rightarrow> pystr result" where
  "generate_name g w =
     bind_r (choose_faker g w)
       (\<lambda>faker w. let (name, w) = faker_last_name w in Inr (str_upper g name, w))"

fun given_names_loop :: "generator \<Rightarrow> nat \<Rightarrow> pystr list \<Rightarrow> world \<Rightarrow> (pystr list) result" where
  "given_names_loop g 0 names w = Inr (names, w)"
| "given_names_loop g (Suc n) names w =
     (case choose_faker g w of
        Inl e \<Rightarrow> Inl e
      | Inr (faker, w) \<Rightarrow>
          (let (name, w) = faker_first_name w;
               name = str_upper g name
           in given_names_loop g n (names @ [name]) w))"

text \<open>\<open>count\<close> is \<open>None\<close> when the caller leaves it out.\<close>

definition generate_given_names :: "generator \<Rightarrow> nat option \<Rightarrow> world \<Rightarrow> (pystr list) result" where
  "generate_given_names g count w =
     (let (count, w) = (case count of None \<Rightarrow> random_randint 1 3 w | Some n \<Rightarrow> (n, w))
      in given_names_loop g count [] w)"

definition generate_city :: "generator \<Rightarrow> world \<Rightarrow> pystr result" where
  "generate_city g w =
     bind_r (choose_faker g w)
       (\<lambda>faker w.
          let (city, w) = faker_city w;
              city = str_upper g city;
              city = py_strip (py_replace (py_replace (py_replace city (asc ''VILLE'') [])
                        (asc ''CITY'') []) (asc ''SAN '') [])
          in Inr (py_slice city 0 20, w))"

subsection \<open>Following the characters of a city name\<close>

text \<open>
  To say which characters of the provider's name are still in the city, the steps of
  \<open>generate_city\<close> after the upper-casing are run on the name with each character
  tagged by its position. A tag plays no part in what is matched, stripped or cut:
  erasing the tags of a result gives the result on the untagged string.
\<close>

type_synonym tagged = "(nat \<times> pychar) list"

definition enumerate_str :: "pystr \<Rightarrow> tagged" where
  "enumerate_str s = zip [0..<length s] s"

text \<open>\<open>s.replace(old, "")\<close> for a non-empty \<open>old\<close>, on a tagged string.\<close>

fun delete_from :: "pystr \<Rightarrow> tagged \<Rightarrow> tagged" where
  "delete_from old [] = []"
| "delete_from old (t # ts) =
     (if prefix old (map snd (t # ts)) then delete_from old (drop (length old - 1) ts)
      else t # delete_from old ts)"

definition tagged_strip :: "tagged \<Rightarrow> tagged" where
  "tagged_strip ts =
     rev (dropWhile (py_isspace \<circ> snd) (rev (dropWhile (py_isspace \<circ> snd) ts)))"

definition tagged_city :: "tagged \<Rightarrow> tagged" where
  "tagged_city ts =
     take 20 (tagged_strip (delete_from (asc ''SAN '') (delete_from (asc ''CITY'')
       (delete_from (asc ''VILLE'') ts))))"

text \<open>
  No occurrence of \<open>old\<close> overlaps another one, and no occurrence of \<open>p\<close> overlaps one of
  \<open>q\<close>.
\<close>

definition unbordered :: "pystr \<Rightarrow> bool" where
  "unbordered old = (\<forall>k<length old. 0 < k \<longrightarrow> \<not> prefix (drop k old) old)"

definition apart :: "pystr \<Rightarrow> pystr \<Rightarrow> bool" where
  "apart p q =
     ((\<forall>k<length p. \<not> prefix (drop k p) q \<and> \<not> prefix q (drop k p)) \<and>
      (\<forall>k<length q. \<not> prefix (drop k q) p \<and> \<not> prefix p (drop k q)))"

text \<open>The city made from a provider's name, with the tags erased.\<close>

definition city_from :: "generator \<Rightarrow> pystr \<Rightarrow> pystr" where
  "city_from g name = map snd (tagged_city (enumerate_str (str_upper g name)))"

text \<open>
  A world whose city provider returns a long name with the three substrings in it and
  spaces at its end.
\<close>

definition long_city_name :: pystr where
  "long_city_name = asc ''San Villecity Of The Very Long Name  ''"

definition long_city_world :: world where
  "long_city_world = (fixed_world 0)\<lparr>cities := sconst long_city_name\<rparr>"

subsection \<open>The value synthesizers\<close>

text \<open>\<open>"".join([str(random.randint(0, 9)) for _ in range(n)])\<close>\<close>

fun random_digits :: "nat \<Rightarrow> world \<Rightarrow> pystr \<times> world" where
  "random_digits 0 w = ([], w)"
| "random_digits (Suc n) w =
     (let (d, w) = random_randint 0 9 w;
          (rest, w) = random_digits n w
      in (str_nat d @ rest, w))"

text \<open>\<open>"".join([random.choice(pool) for _ in range(n)])\<close>\<close>

fun random_chars :: "pystr \<Rightarrow> nat \<Rightarrow> world \<Rightarrow> pystr result" where
  "random_chars pool 0 w = Inr ([], w)"
| "random_chars pool (Suc n) w =
     (case random_choice pool w of
        Inl e \<Rightarrow> Inl e
      | Inr (c, w) \<Rightarrow>
          (case random_chars pool n w of
             Inl e \<Rightarrow> Inl e
           | Inr (rest, w) \<Rightarrow> Inr (c # rest, w)))"

datatype id_format = Numeric | Date_based | Alphanumeric

definition generate_id_number :: "generator \<Rightarrow> world \<Rightarrow> pystr result" where
  "generate_id_number g w =
     bind_r (random_choice [Numeric, Date_based, Alphanumeric] w)
       (\<lambda>format_type w.
          case format_type of
            Numeric \<Rightarrow> Inr (random_digits 12 w)
          | Date_based \<Rightarrow>
              (let (year, w) = random_randint 50 99 w;
                   (month, w) = random_randint 1 12 w;
                   (day, w) = random_randint 1 28 w;
                   (suffix, w) = random_digits 5 w
               in Inr (fmt_02d year @ fmt_02d month @ fmt_02d day @ asc ''T'' @ suffix, w))
          | Alphanumeric \<Rightarrow>
              (let letters = asc ''ABCDEFGHIJKLMNOPQRSTUVWXYZ'';
                   nums = asc ''0123456789''
               in bind_r (random_chars letters 1 w) (\<lambda>c1 w.
                  bind_r (random_chars nums 1 w) (\<lambda>c2 w.
                  bind_r (random_chars letters 3 w) (\<lambda>c3 w.
                  bind_r (random_chars nums 2 w) (\<lambda>c4 w.
                  bind_r (random_chars letters 1 w) (\<lambda>c5 w.
                  bind_r (random_chars nums 1 w) (\<lambda>c6 w.
                  Inr (c1 @ c2 @ c3 @ c4 @ c5 @ c6, w)))))))))"

datatype date_format = Dots | Spaces

text \<open>A date of birth is given as (day, month, year).\<close>

definition generate_date :: "generator \<Rightarrow> world \<Rightarrow> pystr result" where
  "generate_date g w =
     bind_r (choose_faker g w) (\<lambda>faker w.
       let ((day, month, year), w) = faker_date_of_birth w
       in bind_r (random_choice [Dots, Spaces] w) (\<lambda>format_type w.
            case format_type of
              Dots \<Rightarrow> Inr (fmt_02d day @ asc ''.'' @ fmt_02d month @ asc ''.'' @ str_nat year, w)
            | Spaces \<Rightarrow> Inr (fmt_02d day @ asc '' '' @ fmt_02d month @ asc '' '' @ str_nat year, w)))"

definition generate_height :: "generator \<Rightarrow> world \<Rightarrow> pystr result" where
  "generate_height g w =
     (let (meters, w) = random_randint 1 2 w;
          (cm, w) = random_randint 50 99 w
      in bind_r (random_choice [asc '' '', []] w) (\<lambda>separator w.
         bind_r (random_choice [asc ''m'', asc ''M''] w) (\<lambda>unit w.
         Inr (str_nat meters @ separator @ str_nat cm @ unit, w))))"

definition generate_support_number :: "generator \<Rightarrow> world \<Rightarrow> pystr result" where
  "generate_support_number g w =
     (let (n, w) = random_randint 100000 999999 w in Inr (str_nat n, w))"

definition generate_expiry_date :: "generator \<Rightarrow> nat \<Rightarrow> world \<Rightarrow> pystr result" where
  "generate_expiry_date g birth_year w =
     (let (offset, w) = random_randint 18 50 w;
          issue_year = birth_year + offset;
          expiry_year = issue_year + 15;
          (month, w) = random_randint 1 12 w;
          (day, w) = random_randint 1 28 w
      in Inr (fmt_02d day @ asc '' '' @ fmt_02d month @ asc '' '' @ str_nat expiry_year, w))"

subsection \<open>The sample under construction\<close>

text \<open>An entity is the list \<open>[start, end, label, value]\<close>.\<close>

record entity =
  ent_start :: int
  ent_end :: int
  ent_label :: pystr
  ent_value :: pystr

text \<open>The three locals \<open>parts\<close>, \<open>entities\<close> and \<open>pos\<close> of the format routines.\<close>

record builder =
  parts :: "pystr list"
  entities :: "entity list"
  pos :: int

definition len :: "pystr \<Rightarrow> int" where
  "len s = int (length s)"

definition parts_append :: "pystr \<Rightarrow> builder \<Rightarrow> builder" where
  "parts_append s b = b\<lparr>parts := parts b @ [s]\<rparr>"

definition pos_add :: "int \<Rightarrow> builder \<Rightarrow> builder" where
  "pos_add n b = b\<lparr>pos := pos b + n\<rparr>"

definition entities_append :: "int \<Rightarrow> int \<Rightarrow> pystr \<Rightarrow> pystr \<Rightarrow> builder \<Rightarrow> builder" where
  "entities_append s e l v b =
     b\<lparr>entities := entities b @ [\<lparr>ent_start = s, ent_end = e, ent_label = l, ent_value = v\<rparr>]\<rparr>"

definition header_variants :: "pystr list" where
  "header_variants =
     [asc ''R'' @ [201] @ asc ''PUBLIQUE FRAN'' @ [199] @ asc ''AISE'',
      asc ''FRAN'' @ [199] @ asc ''AISE R'' @ [201] @ asc ''PUBLIQUE'',
      asc ''R'' @ [201] @ asc ''PUBLIQUEFRAN'' @ [199] @ asc ''AISE'']"

text \<open>
  The loop over \<open>enumerate(given_names_list)\<close>, the same in both formats; \<open>i\<close> is the
  index of the first name of the list.
\<close>

fun given_names_entities :: "nat \<Rightarrow> pystr list \<Rightarrow> builder \<Rightarrow> builder" where
  "given_names_entities i [] b = b"
| "given_names_entities i (gname # rest) b =
     (let b = (if i > 0 then pos_add 2 (parts_append (asc '', '') b) else b);
          gname_start = pos b;
          b = parts_append gname b;
          b = pos_add (len gname) b;
          b = entities_append gname_start (pos b) (asc ''Surname_'' @ str_nat (i + 1)) gname b
      in given_names_entities (i + 1) rest b)"

subsection \<open>generate\_simple\_format, section by section\<close>

definition simple_header :: "generator \<Rightarrow> builder \<Rightarrow> world \<Rightarrow> builder result" where
  "simple_header g b w =
     bind_r (random_choice header_variants w) (\<lambda>header w.
     bind_r (apply_noise g header True w) (\<lambda>header_noisy w.
       let country_start = pos b;
           b = parts_append (header_noisy @ asc '' '') b;
           b = pos_add (len header_noisy + 1) b;
           b = entities_append country_start (country_start + len header_noisy)
                 (asc ''Country'') header_noisy b
       in Inr (b, w)))"

definition simple_doc_type :: "generator \<Rightarrow> builder \<Rightarrow> world \<Rightarrow> builder result" where
  "simple_doc_type g b w =
     (let doc_type = asc ''CARTE NATIONALE D'' @ [39] @ asc ''IDENTIT'' @ [201]
      in bind_r (apply_noise g doc_type True w) (\<lambda>doc_type_noisy w.
           let doc_start = pos b;
               b = parts_append doc_type_noisy b;
               b = pos_add (len doc_type_noisy) b;
               b = entities_append doc_start (pos b) (asc ''DOC_TYPE'') doc_type_noisy b
           in Inr (b, w)))"

definition simple_id_number :: "generator \<Rightarrow> builder \<Rightarrow> world \<Rightarrow> builder result" where
  "simple_id_number g b w =
     (let id_label = asc '' N'' @ [176] @ asc '' : ''
      in bind_r (apply_noise g id_label True w) (\<lambda>id_label_noisy w.
           let b = parts_append id_label_noisy b;
               b = pos_add (len id_label_noisy) b
           in bind_r (generate_id_number g w) (\<lambda>id_num w.
                let id_start = pos b;
                    b = parts_append id_num b;
                    b = pos_add (len id_num) b;
                    b = entities_append id_start (pos b) (asc ''DNI'') id_num b
                in Inr (b, w))))"

definition simple_nationality :: "generator \<Rightarrow> builder \<Rightarrow> world \<Rightarrow> builder result" where
  "simple_nationality g b w =
     (let nat_label = asc '' Nationalit'' @ [233] @ asc '' ''
      in bind_r (apply_field_typo g nat_label w) (\<lambda>nat_label_noisy w.
           let b = parts_append nat_label_noisy b;
               b = pos_add (len nat_label_noisy) b;
               nationality = asc ''Fran'' @ [231] @ asc ''aise'';
               nat_start = pos b;
               b = parts_append (nationality @ asc '' '') b;
               b = pos_add (len nationality + 1) b;
               b = entities_append nat_start (pos b - 1) (asc ''Nationality'') nationality b
           in Inr (b, w)))"

definition simple_two_letter_code ::
  "generator \<Rightarrow> pystr \<Rightarrow> pystr list \<Rightarrow> builder \<Rightarrow> world \<Rightarrow> builder result" where
  "simple_two_letter_code g surname given_names_list b w =
     (let code_prob = dict_get (simple_probs g) (asc ''two_letter_code'') (5 / 10);
          (r, w) = random_random w
      in if r < code_prob
         then
           (let first_letter_surname = (if surname \<noteq> [] then [hd surname] else asc ''A'')
            in case given_names_list of
                 [] \<Rightarrow>
                   (let code = first_letter_surname @ asc ''A'';
                        b = parts_append (code @ asc '' '') b;
                        b = pos_add (len (code @ asc '' '')) b
                    in Inr (b, w))
               | first_given # _ \<Rightarrow>
                   (case first_given of
                      [] \<Rightarrow> Inl IndexError
                    | c # _ \<Rightarrow>
                        (let code = first_letter_surname @ [c];
                             b = parts_append (code @ asc '' '') b;
                             b = pos_add (len (code @ asc '' '')) b
                         in Inr (b, w))))
         else Inr (b, w))"

definition simple_noise_default :: "(pystr, real) pydict" where
  "simple_noise_default =
     [(asc ''RF '', 3 / 10), (asc ''3F '', 2 / 10), (asc ''RERE '', 1 / 10), (asc ''none'', 4 / 10)]"

definition simple_signature_noise :: "generator \<Rightarrow> builder \<Rightarrow> world \<Rightarrow> builder result" where
  "simple_signature_noise g b w =
     (let noise_prob = dict_get (simple_probs g) (asc ''signature_noise_before_nom'') (2 / 10);
          (r, w) = random_random w
      in if r < noise_prob
         then
           (let simple_noise_patterns =
                  dict_get (signature_noise g) (asc ''simple_format'') simple_noise_default
            in bind_r (weighted_choice g simple_noise_patterns w) (\<lambda>chosen_noise w.
                 if chosen_noise \<noteq> asc ''none''
                 then Inr (pos_add (len chosen_noise) (parts_append chosen_noise b), w)
                 else Inr (b, w)))
         else Inr (b, w))"

definition simple_name :: "generator \<Rightarrow> pystr \<Rightarrow> builder \<Rightarrow> world \<Rightarrow> builder result" where
  "simple_name g surname b w =
     (let name_label = asc ''Nom : ''
      in bind_r (apply_noise g name_label True w) (\<lambda>name_label_noisy w.
           let b = parts_append name_label_noisy b;
               b = pos_add (len name_label_noisy) b;
               name_start = pos b;
               b = parts_append surname b;
               b = pos_add (len surname) b;
               b = entities_append name_start (pos b) (asc ''Name'') surname b
           in Inr (b, w)))"

definition social_status_types :: "pystr list" where
  "social_status_types =
     [asc ''Epouse: '', asc ''Veuve: '', asc ''Nom d'' @ [39] @ asc ''usage: '']"

definition simple_social_status :: "generator \<Rightarrow> builder \<Rightarrow> world \<Rightarrow> builder result" where
  "simple_social_status g b w =
     (let social_status_prob = dict_get (simple_probs g) (asc ''social_status_fields'') (3 / 10);
          (r, w) = random_random w
      in if r < social_status_prob
         then
           bind_r (random_choice social_status_types w) (\<lambda>social_label w.
           bind_r (apply_field_typo g social_label w) (\<lambda>social_label_noisy w.
             let b = parts_append (asc '' '' @ social_label_noisy) b;
                 b = pos_add (len (asc '' '' @ social_label_noisy)) b
             in bind_r (generate_name g w) (\<lambda>alt_name w.
                  let alt_start = pos b;
                      hyphen_prob = dict_get (simple_probs g) (asc ''hyphenated_alt_names'') (3 / 10);
                      (r, w) = random_random w
                  in bind_r (if r < hyphen_prob
                             then bind_r (generate_name g w)
                                    (\<lambda>second w. Inr (alt_name @ asc ''- '' @ second, w))
                             else Inr (alt_name, w))
                       (\<lambda>alt_name w.
                          let b = parts_append alt_name b;
                              b = pos_add (len alt_name) b;
                              b = entities_append alt_start (pos b) (asc ''Alt_name'') alt_name b
                          in Inr (b, w)))))
         else Inr (b, w))"

definition simple_given_names ::
  "generator \<Rightarrow> pystr list \<Rightarrow> builder \<Rightarrow> world \<Rightarrow> builder result" where
  "simple_given_names g given_names_list b w =
     (let prenom_label = asc ''Pr'' @ [233] @ asc ''nom(s)''
      in bind_r (apply_field_typo g prenom_label w) (\<lambda>prenom_label_noisy w.
           let prenom_full = asc '' '' @ prenom_label_noisy @ asc '': '';
               b = parts_append prenom_full b;
               b = pos_add (len prenom_full) b
           in Inr (given_names_entities 0 given_names_list b, w)))"

definition simple_gender :: "generator \<Rightarrow> builder \<Rightarrow> world \<Rightarrow> builder result" where
  "simple_gender g b w =
     (let sex_label = asc '' Sexe : ''
      in bind_r (apply_field_typo g sex_label w) (\<lambda>sex_label_noisy w.
           let b = parts_append sex_label_noisy b;
               b = pos_add (len sex_label_noisy) b
           in bind_r (random_choice [asc ''M'', asc ''F''] w) (\<lambda>gender w.
                let gender_start = pos b;
                    b = parts_append gender b;
                    b = pos_add 1 b;
                    b = entities_append gender_start (pos b) (asc ''Gender'') gender b
                in Inr (b, w))))"

definition simple_birth_date :: "generator \<Rightarrow> builder \<Rightarrow> world \<Rightarrow> builder result" where
  "simple_birth_date g b w =
     (let ne_label = asc ''N'' @ [233] @ asc ''(e)''
      in bind_r (apply_field_typo g ne_label w) (\<lambda>ne_label_noisy w.
           let ne_full = asc '' '' @ ne_label_noisy @ asc '' le : '';
               b = parts_append ne_full b;
               b = pos_add (len ne_full) b
           in bind_r (generate_date g w) (\<lambda>birth_date w.
                let birth_date_start = pos b;
                    b = parts_append birth_date b;
                    b = pos_add (len birth_date) b;
                    b = entities_append birth_date_start (pos b) (asc ''Date of birthday'')
                          birth_date b
                in Inr (b, w))))"

definition simple_birth_place :: "generator \<Rightarrow> builder \<Rightarrow> world \<Rightarrow> builder result" where
  "simple_birth_place g b w =
     (let birth_place_prob = dict_get (simple_probs g) (asc ''birth_place'') (8 / 10);
          (r, w) = random_random w
      in if r < birth_place_prob
         then
           (let a_label = asc '' '' @ [224] @ asc '' '';
                b = parts_append a_label b;
                b = pos_add (len a_label) b
            in bind_r (generate_city g w) (\<lambda>city w.
                 let city_start = pos b;
                     b = parts_append city b;
                     b = pos_add (len city) b;
                     b = entities_append city_start (pos b) (asc ''Birth_place'') city b
                 in Inr (b, w)))
         else Inr (b, w))"

definition simple_height :: "generator \<Rightarrow> builder \<Rightarrow> world \<Rightarrow> builder result" where
  "simple_height g b w =
     (let height_prob = dict_get (simple_probs g) (asc ''height'') (6 / 10);
          (r, w) = random_random w
      in if r < height_prob
         then
           (let taille_label = asc ''Taille''
            in bind_r (apply_noise g taille_label True w) (\<lambda>taille_label_noisy w.
                 let taille_full = asc '' '' @ taille_label_noisy @ asc '' : '';
                     b = parts_append taille_full b;
                     b = pos_add (len taille_full) b
                 in bind_r (generate_height g w) (\<lambda>height w.
                      let height_start = pos b;
                          b = parts_append height b;
                          b = pos_add (len height) b;
                          b = entities_append height_start (pos b) (asc ''Height'') height b
                      in Inr (b, w))))
         else Inr (b, w))"

definition simple_signature :: "generator \<Rightarrow> builder \<Rightarrow> world \<Rightarrow> builder result" where
  "simple_signature g b w =
     (let signature_prob = dict_get (simple_probs g) (asc ''optional_signature'') (4 / 10);
          (r, w) = random_random w
      in if r < signature_prob
         then
           (let sig_label = asc ''Signature du titulaire''
            in bind_r (apply_noise g sig_label True w) (\<lambda>sig_label_noisy w.
                 let sig_full = asc '' '' @ sig_label_noisy @ asc '' :'';
                     b = parts_append sig_full b;
                     b = pos_add (len sig_full) b
                 in Inr (b, w)))
         else Inr (b, w))"

definition empty_builder :: builder where
  "empty_builder = \<lparr>parts = [], entities = [], pos = 0\<rparr>"

definition generate_simple_format :: "generator \<Rightarrow> world \<Rightarrow> (pystr \<times> entity list) result" where
  "generate_simple_format g w =
     bind_r (simple_header g empty_builder w) (\<lambda>b w.
     bind_r (simple_doc_type g b w) (\<lambda>b w.
     bind_r (simple_id_number g b w) (\<lambda>b w.
     bind_r (simple_nationality g b w) (\<lambda>b w.
     bind_r (generate_name g w) (\<lambda>surname w.
     bind_r (generate_given_names g None w) (\<lambda>given_names_list w.
     bind_r (simple_two_letter_code g surname given_names_list b w) (\<lambda>b w.
     bind_r (simple_signature_noise g b w) (\<lambda>b w.
     bind_r (simple_name g surname b w) (\<lambda>b w.
     bind_r (simple_social_status g b w) (\<lambda>b w.
     bind_r (simple_given_names g given_names_list b w) (\<lambda>b w.
     bind_r (simple_gender g b w) (\<lambda>b w.
     bind_r (simple_birth_date g b w) (\<lambda>b w.
     bind_r (simple_birth_place g b w) (\<lambda>b w.
     bind_r (simple_height g b w) (\<lambda>b w.
     bind_r (simple_signature g b w) (\<lambda>b w.
       let text = concat (parts b) in Inr ((text, entities b), w)))))))))))))))))"

subsection \<open>generate\_bilingual\_format, section by section\<close>

definition bilingual_header :: "generator \<Rightarrow> builder \<Rightarrow> world \<Rightarrow> builder result" where
  "bilingual_header g b w =
     bind_r (random_choice header_variants w) (\<lambda>header w.
     bind_r (apply_noise g header True w) (\<lambda>header_noisy w.
       let country_start = pos b;
           b = parts_append header_noisy b;
           b = pos_add (len header_noisy) b;
           b = entities_append country_start (pos b) (asc ''Country'') header_noisy b;
           b = parts_append (asc '' FR '') b;
           b = pos_add 4 b
       in Inr (b, w)))"

definition bilingual_doc_type :: "generator \<Rightarrow> builder \<Rightarrow> world \<Rightarrow> builder result" where
  "bilingual_doc_type g b w =
     (let doc_type = asc ''CARTE NATIONALE D'' @ [39] @ asc ''IDENTIT'' @ [201] @
                     asc '' / IDENTITY CARD''
      in bind_r (apply_noise g doc_type True w) (\<lambda>doc_type_noisy w.
           let doc_start = pos b;
               b = parts_append doc_type_noisy b;
               b = pos_add (len doc_type_noisy) b;
               b = entities_append doc_start (pos b) (asc ''DOC_TYPE'') doc_type_noisy b
           in Inr (b, w)))"

definition bilingual_name :: "generator \<Rightarrow> builder \<Rightarrow> world \<Rightarrow> builder result" where
  "bilingual_name g b w =
     bind_r (apply_field_typo g (asc '' NOM/Sumame '') w) (\<lambda>field_label w.
       let b = parts_append field_label b;
           b = pos_add (len field_label) b
       in bind_r (generate_name g w) (\<lambda>surname w.
            let name_start = pos b;
                b = parts_append surname b;
                b = pos_add (len surname) b;
                b = entities_append name_start (pos b) (asc ''Name'') surname b
            in Inr (b, w)))"

definition bilingual_given_names :: "generator \<Rightarrow> builder \<Rightarrow> world \<Rightarrow> builder result" where
  "bilingual_given_names g b w =
     bind_r (apply_field_typo g (asc '' Pr'' @ [233] @ asc ''noms / Given names '') w)
       (\<lambda>given_label w.
          let b = parts_append given_label b;
              b = pos_add (len given_label) b;
              (count, w) = random_randint 1 2 w
          in bind_r (generate_given_names g (Some count) w) (\<lambda>given_names_list w.
               Inr (given_names_entities 0 given_names_list b, w)))"

definition bilingual_labels :: "generator \<Rightarrow> builder \<Rightarrow> world \<Rightarrow> builder result" where
  "bilingual_labels g b w =
     bind_r (apply_field_typo g (asc '' SEXE /Sex '') w) (\<lambda>gender_label w.
       let b = parts_append gender_label b;
           b = pos_add (len gender_label) b
       in bind_r (apply_field_typo g
                    (asc '' NATIONALIT'' @ [201] @ asc '' / Nationality '') w) (\<lambda>nat_label w.
            let b = parts_append nat_label b;
                b = pos_add (len nat_label) b;
                date_label = asc ''DATE DE NAISS. / Date of birth '';
                b = parts_append date_label b;
                b = pos_add (len date_label) b
            in Inr (b, w)))"

definition bilingual_gender :: "generator \<Rightarrow> builder \<Rightarrow> world \<Rightarrow> builder result" where
  "bilingual_gender g b w =
     bind_r (random_choice [asc ''M'', asc ''F''] w) (\<lambda>gender w.
       let gender_start = pos b;
           b = parts_append (gender @ asc '' '') b;
           b = pos_add 2 b;
           b = entities_append gender_start (gender_start + 1) (asc ''Gender'') gender b
       in Inr (b, w))"

definition nationality_codes :: "pystr list" where
  "nationality_codes =
     [asc ''FRA'', asc ''ESP'', asc ''PRT'', asc ''ITA'', asc ''BEL'', asc ''MAR'', asc ''TUN'',
      asc ''DZA'']"

definition bilingual_nationality :: "generator \<Rightarrow> builder \<Rightarrow> world \<Rightarrow> builder result" where
  "bilingual_nationality g b w =
     bind_r (random_choice nationality_codes w) (\<lambda>nationality w.
       let nat_start = pos b;
           b = parts_append (nationality @ asc '' '') b;
           b = pos_add (len nationality + 1) b;
           b = entities_append nat_start (pos b - 1) (asc ''Nationality'') nationality b
       in Inr (b, w))"

definition bilingual_birth_date :: "generator \<Rightarrow> builder \<Rightarrow> world \<Rightarrow> builder result" where
  "bilingual_birth_date g b w =
     bind_r (generate_date g w) (\<lambda>birth_date w.
       let birth_date_start = pos b;
           b = parts_append birth_date b;
           b = pos_add (len birth_date) b;
           b = entities_append birth_date_start (pos b) (asc ''Date of birthday'') birth_date b
       in Inr (b, w))"

definition bilingual_birth_place :: "generator \<Rightarrow> builder \<Rightarrow> world \<Rightarrow> builder result" where
  "bilingual_birth_place g b w =
     (let birth_place_prob = dict_get (bilingual_probs g) (asc ''birth_place'') (9 / 10);
          (r, w) = random_random w
      in if r < birth_place_prob
         then
           (let birth_place_label = asc '' LIEU DE NAISSANCE / Place of birth '';
                b = parts_append birth_place_label b;
                b = pos_add (len birth_place_label) b
            in bind_r (generate_city g w) (\<lambda>city w.
                 let city_start = pos b;
                     b = parts_append city b;
                     b = pos_add (len city) b;
                     b = entities_append city_start (pos b) (asc ''Birth_place'') city b
                 in Inr (b, w)))
         else Inr (b, w))"

definition bilingual_alt_name :: "generator \<Rightarrow> builder \<Rightarrow> world \<Rightarrow> builder result" where
  "bilingual_alt_name g b w =
     (let alt_name_prob = dict_get (bilingual_probs g) (asc ''alt_name_married'') (3 / 10);
          (r, w) = random_random w
      in if r < alt_name_prob
         then
           (let guardian_label = asc '' NOM D'' @ [39] @ asc ''USAGE / Alternate name '' @
                                 [233] @ asc ''p. ''
            in bind_r (apply_field_typo g guardian_label w) (\<lambda>guardian_label_noisy w.
                 let b = parts_append guardian_label_noisy b;
                     b = pos_add (len guardian_label_noisy) b
                 in bind_r (generate_name g w) (\<lambda>guardian_name w.
                      let guardian_start = pos b;
                          b = parts_append guardian_name b;
                          b = pos_add (len guardian_name) b;
                          b = entities_append guardian_start (pos b) (asc ''Alt_name'')
                                guardian_name b
                      in Inr (b, w))))
         else Inr (b, w))"

definition bilingual_document_number :: "generator \<Rightarrow> builder \<Rightarrow> world \<Rightarrow> builder result" where
  "bilingual_document_number g b w =
     (let doc_num_label = asc '' N'' @ [176] @ asc '' DU DOCUMENT / Document No '';
          b = parts_append doc_num_label b;
          b = pos_add (len doc_num_label) b
      in bind_r (generate_id_number g w) (\<lambda>id_num w.
           let id_start = pos b;
               b = parts_append id_num b;
               b = pos_add (len id_num) b;
               b = entities_append id_start (pos b) (asc ''DNI'') id_num b
           in Inr (b, w)))"

definition bilingual_expiry_date :: "generator \<Rightarrow> builder \<Rightarrow> world \<Rightarrow> builder result" where
  "bilingual_expiry_date g b w =
     (let expiry_prob = dict_get (bilingual_probs g) (asc ''expiry_date'') (8 / 10);
          (r, w) = random_random w
      in if r < expiry_prob
         then
           (let expiry_label = asc '' DATE D'' @ [39] @ asc ''EXPIR. / Expiry date '';
                b = parts_append expiry_label b;
                b = pos_add (len expiry_label) b
            in bind_r (generate_expiry_date g 1980 w) (\<lambda>expiry w.
                 let expiry_start = pos b;
                     b = parts_append expiry b;
                     b = pos_add (len expiry) b;
                     b = entities_append expiry_start (pos b) (asc ''Validity_date'') expiry b
                 in Inr (b, w)))
         else Inr (b, w))"

definition bilingual_noise_default :: "(pystr, real) pydict" where
  "bilingual_noise_default =
     [(asc ''MA '', 3 / 10), (asc ''random_2letter'', 2 / 10), (asc ''random_digits'', 1 / 10),
      (asc ''none'', 4 / 10)]"

definition two_letter_noises :: "pystr list" where
  "two_letter_noises =
     [asc ''AB '', asc ''BA '', asc ''CA '', asc ''DA '', asc ''KA '', asc ''RA '', asc ''SA '']"

definition bilingual_support_number :: "generator \<Rightarrow> builder \<Rightarrow> world \<Rightarrow> builder result" where
  "bilingual_support_number g b w =
     (let support_prob = dict_get (bilingual_probs g) (asc ''support_number'') (4 / 10);
          (r, w) = random_random w
      in if r < support_prob
         then
           (let b = parts_append (asc '' '') b;
                b = pos_add 1 b;
                bilingual_noise_patterns =
                  dict_get (signature_noise g) (asc ''bilingual_format'') bilingual_noise_default
            in bind_r (weighted_choice g bilingual_noise_patterns w) (\<lambda>chosen_noise w.
               bind_r (if chosen_noise = asc ''MA ''
                       then Inr (pos_add 3 (parts_append (asc ''MA '') b), w)
                       else if chosen_noise = asc ''random_2letter''
                       then bind_r (random_choice two_letter_noises w) (\<lambda>noise w.
                              Inr (pos_add 3 (parts_append noise b), w))
                       else if chosen_noise = asc ''random_digits''
                       then bind_r (random_choice [2, 3] w) (\<lambda>noise_len w.
                              let (digits, w) = random_digits noise_len w;
                                  noise = digits @ asc '' ''
                              in Inr (pos_add (len noise) (parts_append noise b), w))
                       else Inr (b, w))
                 (\<lambda>b w.
                    bind_r (generate_support_number g w) (\<lambda>support w.
                      let support_start = pos b;
                          b = parts_append support b;
                          b = pos_add (len support) b;
                          b = entities_append support_start (pos b) (asc ''Support_number'')
                                support b
                      in Inr (b, w)))))
         else Inr (b, w))"

definition generate_bilingual_format :: "generator \<Rightarrow> world \<Rightarrow> (pystr \<times> entity list) result" where
  "generate_bilingual_format g w =
     bind_r (bilingual_header g empty_builder w) (\<lambda>b w.
     bind_r (bilingual_doc_type g b w) (\<lambda>b w.
     bind_r (bilingual_name g b w) (\<lambda>b w.
     bind_r (bilingual_given_names g b w) (\<lambda>b w.
     bind_r (bilingual_labels g b w) (\<lambda>b w.
     bind_r (bilingual_gender g b w) (\<lambda>b w.
     bind_r (bilingual_nationality g b w) (\<lambda>b w.
     bind_r (bilingual_birth_date g b w) (\<lambda>b w.
     bind_r (bilingual_birth_place g b w) (\<lambda>b w.
     bind_r (bilingual_alt_name g b w) (\<lambda>b w.
     bind_r (bilingual_document_number g b w) (\<lambda>b w.
     bind_r (bilingual_expiry_date g b w) (\<lambda>b w.
     bind_r (bilingual_support_number g b w) (\<lambda>b w.
       let text = concat (parts b) in Inr ((text, entities b), w))))))))))))))"

subsection \<open>What holds of a sample under construction\<close>

text \<open>
  The entities lie one after the other from \<open>lo\<close> on, inside \<open>text\<close>, and each bounds its
  value.
\<close>

fun spans_ok :: "pystr \<Rightarrow> int \<Rightarrow> entity list \<Rightarrow> bool" where
  "spans_ok text lo [] = (lo \<le> len text)"
| "spans_ok text lo (e # es) =
     (lo \<le> ent_start e \<and> ent_start e \<le> ent_end e \<and>
      py_slice text (ent_start e) (ent_end e) = ent_value e \<and> spans_ok text (ent_end e) es)"

definition builder_ok :: "builder \<Rightarrow> bool" where
  "builder_ok b =
     (pos b = len (concat (parts b)) \<and> spans_ok (concat (parts b)) 0 (entities b))"

text \<open>Every Birth\_place entity recorded so far holds a city made from some provider's name.\<close>

definition cities_ok :: "generator \<Rightarrow> builder \<Rightarrow> bool" where
  "cities_ok g b =
     (\<forall>e\<in>set (entities b).
        ent_label e = asc ''Birth_place'' \<longrightarrow> (\<exists>name. ent_value e = city_from g name))"


subsection \<open>Example runs\<close>

text \<open>Noise enabled, the global gate always open and every character dropped.\<close>

definition mute_generator :: generator where
  "mute_generator = quiet_generator\<lparr>global_prob := 1, missing_char_prob := 1\<rparr>"

text \<open>
  The samples of the quiet and of the mute generator in the world where every raw random
  value is 0: their texts, part by part, and their entities.
\<close>

definition quiet_simple_text :: pystr where
  "quiet_simple_text =
     concat
       [asc ''R'' @ [201] @ asc ''PUBLIQUE FRAN'' @ [199] @ asc ''AISE '',
        asc ''CARTE NATIONALE D'' @ [39] @ asc ''IDENTIT'' @ [201],
        asc '' N'' @ [176] @ asc '' : '',
        asc ''000000000000'',
        asc '' Nationalit'' @ [233] @ asc '' '',
        asc ''Fran'' @ [231] @ asc ''aise '',
        asc ''DM '',
        asc ''RF '',
        asc ''Nom : '',
        asc ''DUPONT'',
        asc '' Epouse: '',
        asc ''DUPONT- DUPONT'',
        asc '' Pr'' @ [233] @ asc ''nom(s): '',
        asc ''MARIE'',
        asc '' Sexe : '',
        asc ''M'',
        asc '' N'' @ [233] @ asc ''(e) le : '',
        asc ''01.02.1990'',
        asc '' '' @ [224] @ asc '' '',
        asc ''PARIS'',
        asc '' Taille : '',
        asc ''1 50m'',
        asc '' Signature du titulaire :'']"

definition quiet_simple_entities :: "entity list" where
  "quiet_simple_entities =
     [\<lparr>ent_start = 0, ent_end = 20, ent_label = asc ''Country'',
        ent_value = asc ''R'' @ [201] @ asc ''PUBLIQUE FRAN'' @ [199] @ asc ''AISE''\<rparr>,
      \<lparr>ent_start = 21, ent_end = 47, ent_label = asc ''DOC_TYPE'',
        ent_value = asc ''CARTE NATIONALE D'' @ [39] @ asc ''IDENTIT'' @ [201]\<rparr>,
      \<lparr>ent_start = 53, ent_end = 65, ent_label = asc ''DNI'',
        ent_value = asc ''000000000000''\<rparr>,
      \<lparr>ent_start = 78, ent_end = 87, ent_label = asc ''Nationality'',
        ent_value = asc ''Fran'' @ [231] @ asc ''aise''\<rparr>,
      \<lparr>ent_start = 100, ent_end = 106, ent_label = asc ''Name'',
        ent_value = asc ''DUPONT''\<rparr>,
      \<lparr>ent_start = 115, ent_end = 129, ent_label = asc ''Alt_name'',
        ent_value = asc ''DUPONT- DUPONT''\<rparr>,
      \<lparr>ent_start = 141, ent_end = 146, ent_label = asc ''Surname_1'',
        ent_value = asc ''MARIE''\<rparr>,
      \<lparr>ent_start = 154, ent_end = 155, ent_label = asc ''Gender'',
        ent_value = asc ''M''\<rparr>,
      \<lparr>ent_start = 167, ent_end = 177, ent_label = asc ''Date of birthday'',
        ent_value = asc ''01.02.1990''\<rparr>,
      \<lparr>ent_start = 180, ent_end = 185, ent_label = asc ''Birth_place'',
        ent_value = asc ''PARIS''\<rparr>,
      \<lparr>ent_start = 195, ent_end = 200, ent_label = asc ''Height'',
        ent_value = asc ''1 50m''\<rparr>]"

definition mute_simple_text :: pystr where
  "mute_simple_text =
     concat
       [asc '' '',
        asc ''000000000000'',
        asc ''Fran'' @ [231] @ asc ''aise '',
        asc ''DM '',
        asc ''RF '',
        asc ''DUPONT'',
        asc '' '',
        asc ''DUPONT- DUPONT'',
        asc '' : '',
        asc ''MARIE'',
        asc ''M'',
        asc ''  le : '',
        asc ''01.02.1990'',
        asc '' '' @ [224] @ asc '' '',
        asc ''PARIS'',
        asc ''  : '',
        asc ''1 50m'',
        asc ''  :'']"

definition mute_simple_entities :: "entity list" where
  "mute_simple_entities =
     [\<lparr>ent_start = 0, ent_end = 0, ent_label = asc ''Country'',
        ent_value = []\<rparr>,
      \<lparr>ent_start = 1, ent_end = 1, ent_label = asc ''DOC_TYPE'',
        ent_value = []\<rparr>,
      \<lparr>ent_start = 1, ent_end = 13, ent_label = asc ''DNI'',
        ent_value = asc ''000000000000''\<rparr>,
      \<lparr>ent_start = 13, ent_end = 22, ent_label = asc ''Nationality'',
        ent_value = asc ''Fran'' @ [231] @ asc ''aise''\<rparr>,
      \<lparr>ent_start = 29, ent_end = 35, ent_label = asc ''Name'',
        ent_value = asc ''DUPONT''\<rparr>,
      \<lparr>ent_start = 36, ent_end = 50, ent_label = asc ''Alt_name'',
        ent_value = asc ''DUPONT- DUPONT''\<rparr>,
      \<lparr>ent_start = 53, ent_end = 58, ent_label = asc ''Surname_1'',
        ent_value = asc ''MARIE''\<rparr>,
      \<lparr>ent_start = 58, ent_end = 59, ent_label = asc ''Gender'',
        ent_value = asc ''M''\<rparr>,
      \<lparr>ent_start = 66, ent_end = 76, ent_label = asc ''Date of birthday'',
        ent_value = asc ''01.02.1990''\<rparr>,
      \<lparr>ent_start = 79, ent_end = 84, ent_label = asc ''Birth_place'',
        ent_value = asc ''PARIS''\<rparr>,
      \<lparr>ent_start = 88, ent_end = 93, ent_label = asc ''Height'',
        ent_value = asc ''1 50m''\<rparr>]"

definition quiet_bilingual_text :: pystr where
  "quiet_bilingual_text =
     concat
       [asc ''R'' @ [201] @ asc ''PUBLIQUE FRAN'' @ [199] @ asc ''AISE'',
        asc '' FR '',
        asc ''CARTE NATIONALE D'' @ [39] @ asc ''IDENTIT'' @ [201] @ asc '' / IDENTITY CARD'',
        asc '' NOM/Sumame '',
        asc ''DUPONT'',
        asc '' Pr'' @ [233] @ asc ''noms / Given names '',
        asc ''MARIE'',
        asc '' SEXE /Sex '',
        asc '' NATIONALIT'' @ [201] @ asc '' / Nationality '',
        asc ''DATE DE NAISS. / Date of birth '',
        asc ''M '',
        asc ''FRA '',
        asc ''01.02.1990'',
        asc '' LIEU DE NAISSANCE / Place of birth '',
        asc ''PARIS'',
        asc '' NOM D'' @ [39] @ asc ''USAGE / Alternate name '' @ [233] @ asc ''p. '',
        asc ''DUPONT'',
        asc '' N'' @ [176] @ asc '' DU DOCUMENT / Document No '',
        asc ''000000000000'',
        asc '' DATE D'' @ [39] @ asc ''EXPIR. / Expiry date '',
        asc ''01 01 2013'',
        asc '' '',
        asc ''MA '',
        asc ''100000'']"

definition quiet_bilingual_entities :: "entity list" where
  "quiet_bilingual_entities =
     [\<lparr>ent_start = 0, ent_end = 20, ent_label = asc ''Country'',
        ent_value = asc ''R'' @ [201] @ asc ''PUBLIQUE FRAN'' @ [199] @ asc ''AISE''\<rparr>,
      \<lparr>ent_start = 24, ent_end = 66, ent_label = asc ''DOC_TYPE'',
        ent_value = asc ''CARTE NATIONALE D'' @ [39] @ asc ''IDENTIT'' @ [201] @ asc '' / IDENTITY CARD''\<rparr>,
      \<lparr>ent_start = 78, ent_end = 84, ent_label = asc ''Name'',
        ent_value = asc ''DUPONT''\<rparr>,
      \<lparr>ent_start = 107, ent_end = 112, ent_label = asc ''Surname_1'',
        ent_value = asc ''MARIE''\<rparr>,
      \<lparr>ent_start = 181, ent_end = 182, ent_label = asc ''Gender'',
        ent_value = asc ''M''\<rparr>,
      \<lparr>ent_start = 183, ent_end = 186, ent_label = asc ''Nationality'',
        ent_value = asc ''FRA''\<rparr>,
      \<lparr>ent_start = 187, ent_end = 197, ent_label = asc ''Date of birthday'',
        ent_value = asc ''01.02.1990''\<rparr>,
      \<lparr>ent_start = 233, ent_end = 238, ent_label = asc ''Birth_place'',
        ent_value = asc ''PARIS''\<rparr>,
      \<lparr>ent_start = 272, ent_end = 278, ent_label = asc ''Alt_name'',
        ent_value = asc ''DUPONT''\<rparr>,
      \<lparr>ent_start = 308, ent_end = 320, ent_label = asc ''DNI'',
        ent_value = asc ''000000000000''\<rparr>,
      \<lparr>ent_start = 349, ent_end = 359, ent_label = asc ''Validity_date'',
        ent_value = asc ''01 01 2013''\<rparr>,
      \<lparr>ent_start = 363, ent_end = 369, ent_label = asc ''Support_number'',
        ent_value = asc ''100000''\<rparr>]"

text \<open>The given-name section of the simple format on three names, from the empty sample.\<close>

definition three_names_builder :: builder where
  "three_names_builder =
     \<lparr>parts = [asc '' Pr'' @ [233] @ asc ''nom(s): '', asc ''MARIE'', asc '', '', asc ''ANNE'',
               asc '', '', asc ''LOUISE''],
      entities =
        [\<lparr>ent_start = 12, ent_end = 17, ent_label = asc ''Surname_1'', ent_value = asc ''MARIE''\<rparr>,
         \<lparr>ent_start = 19, ent_end = 23, ent_label = asc ''Surname_2'', ent_value = asc ''ANNE''\<rparr>,
         \<lparr>ent_start = 25, ent_end = 31, ent_label = asc ''Surname_3'',
           ent_value = asc ''LOUISE''\<rparr>],
      pos = 31\<rparr>"

section \<open>Weighted choice\<close>

lemma cumulative_from_Cons_0: "cumulative_from add c ((k, p) # tbl) 0 = add c p"
  by (simp add: cumulative_from_def)

lemma cumulative_from_Cons_Suc:
  "cumulative_from add c ((k, p) # tbl) (Suc i) = cumulative_from add (add c p) tbl i"
  by (simp add: cumulative_from_def)

lemma weighted_loop_first:
  "i < length tbl \<Longrightarrow> r \<le> cumulative_from add c tbl i \<Longrightarrow>
   (\<forall>j<i. \<not> r \<le> cumulative_from add c tbl j) \<Longrightarrow>
   weighted_loop add r c tbl = Some (fst (tbl ! i))"
proof (induction tbl arbitrary: c i)
  case Nil
  then show ?case by simp
next
  case (Cons kp tbl)
  obtain k p where kp: "kp = (k, p)" by (cases kp)
  show ?case
  proof (cases i)
    case 0
    with Cons.prems kp show ?thesis by (simp add: cumulative_from_Cons_0)
  next
    case (Suc i')
    from Cons.prems(3) Suc have not0: "\<not> r \<le> add c p"
      using kp cumulative_from_Cons_0 by (metis zero_less_Suc)
    have later: "\<forall>j<i'. \<not> r \<le> cumulative_from add (add c p) tbl j"
    proof (intro allI impI)
      fix j assume "j < i'"
      then have "Suc j < i" using Suc by simp
      with Cons.prems(3) have "\<not> r \<le> cumulative_from add c (kp # tbl) (Suc j)" by blast
      then show "\<not> r \<le> cumulative_from add (add c p) tbl j"
        by (simp add: kp cumulative_from_Cons_Suc)
    qed
    have here: "r \<le> cumulative_from add (add c p) tbl i'"
      using Cons.prems(2) by (simp add: Suc kp cumulative_from_Cons_Suc)
    have "weighted_loop add r (add c p) tbl = Some (fst (tbl ! i'))"
      using Cons.IH [of i' "add c p"] Cons.prems(1) here later Suc by simp
    with not0 show ?thesis by (simp add: kp Suc)
  qed
qed

lemma weighted_loop_None:
  "(\<forall>i<length tbl. \<not> r \<le> cumulative_from add c tbl i) \<Longrightarrow> weighted_loop add r c tbl = None"
proof (induction tbl arbitrary: c)
  case Nil
  then show ?case by simp
next
  case (Cons kp tbl)
  obtain k p where kp: "kp = (k, p)" by (cases kp)
  from Cons.prems have not0: "\<not> r \<le> add c p"
    using kp cumulative_from_Cons_0 by (metis length_greater_0_conv list.distinct(1))
  have "\<forall>i<length tbl. \<not> r \<le> cumulative_from add (add c p) tbl i"
  proof (intro allI impI)
    fix i assume "i < length tbl"
    then have "Suc i < length (kp # tbl)" by simp
    with Cons.prems have "\<not> r \<le> cumulative_from add c (kp # tbl) (Suc i)" by blast
    then show "\<not> r \<le> cumulative_from add (add c p) tbl i"
      by (simp add: kp cumulative_from_Cons_Suc)
  qed
  then have "weighted_loop add r (add c p) tbl = None" by (rule Cons.IH)
  with not0 show ?case by (simp add: kp)
qed

lemma weighted_loop_Some_key:
  "weighted_loop add r c tbl = Some k \<Longrightarrow> k \<in> fst ` set tbl"
proof (induction tbl arbitrary: c)
  case Nil
  then show ?case by simp
next
  case (Cons kp tbl)
  obtain k' p where kp: "kp = (k', p)" by (cases kp)
  show ?case
  proof (cases "r \<le> add c p")
    case True
    with Cons.prems kp show ?thesis by simp
  next
    case False
    with Cons.prems kp have "weighted_loop add r (add c p) tbl = Some k" by simp
    then have "k \<in> fst ` set tbl" by (rule Cons.IH)
    then show ?thesis by simp
  qed
qed

lemma first_index_exists:
  fixes P :: "nat \<Rightarrow> bool"
  assumes "P n"
  shows "\<exists>i\<le>n. P i \<and> (\<forall>j<i. \<not> P j)"
proof -
  have "P (LEAST i. P i)" using assms by (rule LeastI)
  moreover have "(LEAST i. P i) \<le> n" using assms by (rule Least_le)
  moreover have "\<forall>j<(LEAST i. P i). \<not> P j" using not_less_Least by blast
  ultimately show ?thesis by blast
qed

text \<open>
  With non-negative weights and an addition that never goes below its first argument when
  the second is non-negative, as rounding to the nearest float does, the cumulative masses
  never decrease: the last one, the total, is the largest.
\<close>

lemma cumulative_from_mono:
  fixes add :: "real \<Rightarrow> real \<Rightarrow> real"
  assumes up: "\<forall>a b. 0 \<le> b \<longrightarrow> a \<le> add a b" and nn: "\<forall>kp\<in>set tbl. 0 \<le> snd kp"
  shows "c \<le> foldl add c (map snd tbl)"
  using nn
proof (induction tbl arbitrary: c)
  case Nil
  then show ?case by simp
next
  case (Cons kp tbl)
  have "c \<le> add c (snd kp)" using up Cons.prems by simp
  also have "\<dots> \<le> foldl add (add c (snd kp)) (map snd tbl)"
    using Cons.prems by (intro Cons.IH) simp
  finally show ?case by simp
qed

lemma cumulative_mass_le_total:
  assumes up: "\<forall>a b. 0 \<le> b \<longrightarrow> a \<le> float_add g a b" and nn: "\<forall>kp\<in>set tbl. 0 \<le> snd kp"
    and i: "i < length tbl"
  shows "cumulative_mass g tbl i \<le> cumulative_mass g tbl (length tbl - 1)"
proof -
  let ?ws = "map snd tbl"
  have t: "take (Suc (length tbl - 1)) tbl = tbl" using i by simp
  have "foldl (float_add g) 0 ?ws =
      foldl (float_add g) (foldl (float_add g) 0 (map snd (take (Suc i) tbl)))
        (map snd (drop (Suc i) tbl))"
    by (metis append_take_drop_id foldl_append map_append)
  moreover have "foldl (float_add g) 0 (map snd (take (Suc i) tbl)) \<le>
      foldl (float_add g) (foldl (float_add g) 0 (map snd (take (Suc i) tbl)))
        (map snd (drop (Suc i) tbl))"
    using up nn by (intro cumulative_from_mono) (auto dest: in_set_dropD)
  ultimately show ?thesis
    by (simp add: cumulative_mass_def cumulative_from_def t)
qed

lemma random_float_range: "0 \<le> random_float k \<and> random_float k < 1"
proof -
  have "real (k mod 2 ^ 53) < 2 ^ 53"
    by (metis mod_less_divisor of_nat_less_iff of_nat_numeral of_nat_power zero_less_numeral zero_less_power)
  then show ?thesis by (simp add: random_float_def)
qed

lemma random_random_fixed: "random_random (fixed_world k) = (random_float k, fixed_world k)"
  by (simp add: random_random_def fixed_world_def)

lemma weighted_choice_unfold:
  "weighted_choice g tbl w =
     (case weighted_loop (float_add g) (fst (random_random w)) 0 tbl of
        Some choice \<Rightarrow> Inr (choice, snd (random_random w))
      | None \<Rightarrow> if tbl = [] then Inl IndexError else Inr (last (map fst tbl), snd (random_random w)))"
  by (cases "random_random w") (simp add: weighted_choice_def split: option.splits)

text \<open>
  Claim C2. The cumulative masses are the running totals the loop itself computes, with
  the float addition of the code, whatever its rounding. For a non-empty table,
  \<open>_weighted_choice\<close> returns the first option, in table order, whose cumulative mass
  is at least the draw. When the masses add up to exactly 1 such an option exists for
  every draw. A draw beyond every cumulative mass returns the last key of the table; so
  does a draw beyond the total, whenever the total is the largest cumulative mass, as it
  is for a table of probabilities.
\<close>

theorem weighted_choice_first_match:
  assumes ne: "tbl \<noteq> []"
  shows "(\<forall>i<length tbl.
            fst (random_random w) \<le> cumulative_mass g tbl i \<and>
            (\<forall>j<i. \<not> fst (random_random w) \<le> cumulative_mass g tbl j) \<longrightarrow>
            weighted_choice g tbl w = Inr (fst (tbl ! i), snd (random_random w))) \<and>
         (cumulative_mass g tbl (length tbl - 1) = 1 \<longrightarrow>
            (\<exists>i<length tbl.
               fst (random_random w) \<le> cumulative_mass g tbl i \<and>
               (\<forall>j<i. \<not> fst (random_random w) \<le> cumulative_mass g tbl j) \<and>
               weighted_choice g tbl w = Inr (fst (tbl ! i), snd (random_random w)))) \<and>
         ((\<forall>i<length tbl. cumulative_mass g tbl i < fst (random_random w)) \<longrightarrow>
            weighted_choice g tbl w = Inr (fst (last tbl), snd (random_random w))) \<and>
         ((\<forall>i<length tbl. cumulative_mass g tbl i \<le> cumulative_mass g tbl (length tbl - 1)) \<and>
          cumulative_mass g tbl (length tbl - 1) < fst (random_random w) \<longrightarrow>
            weighted_choice g tbl w = Inr (fst (last tbl), snd (random_random w)))"
proof -
  let ?r = "fst (random_random w)"
  let ?w = "snd (random_random w)"
  let ?cum = "cumulative_mass g tbl"
  have first: "weighted_choice g tbl w = Inr (fst (tbl ! i), ?w)"
    if "i < length tbl" "?r \<le> ?cum i" "\<forall>j<i. \<not> ?r \<le> ?cum j" for i
  proof -
    have "weighted_loop (float_add g) ?r 0 tbl = Some (fst (tbl ! i))"
      using that by (intro weighted_loop_first) (simp_all add: cumulative_mass_def)
    then show ?thesis by (simp add: weighted_choice_unfold)
  qed
  have beyond: "weighted_choice g tbl w = Inr (fst (last tbl), ?w)"
    if "\<forall>i<length tbl. ?cum i < ?r"
  proof -
    have "\<forall>i<length tbl. \<not> ?r \<le> cumulative_from (float_add g) 0 tbl i"
      using that by (auto simp: cumulative_mass_def)
    then have "weighted_loop (float_add g) ?r 0 tbl = None"
      by (rule weighted_loop_None)
    then show ?thesis using ne by (simp add: weighted_choice_unfold last_map)
  qed
  have one: "\<exists>i<length tbl. ?r \<le> ?cum i \<and> (\<forall>j<i. \<not> ?r \<le> ?cum j) \<and>
      weighted_choice g tbl w = Inr (fst (tbl ! i), ?w)"
    if total: "?cum (length tbl - 1) = 1"
  proof -
    have "?r < 1"
      using random_float_range by (simp add: random_random_def)
    then have "?r \<le> ?cum (length tbl - 1)"
      using total by (simp only: less_imp_le)
    then obtain i where i: "i \<le> length tbl - 1" "?r \<le> ?cum i" "\<forall>j<i. \<not> ?r \<le> ?cum j"
      using first_index_exists [of "\<lambda>i. ?r \<le> ?cum i" "length tbl - 1"] by blast
    from i(1) ne have len: "i < length tbl"
      by (cases tbl) simp_all
    with i(2,3) first [of i] show ?thesis by blast
  qed
  have total_beyond: "weighted_choice g tbl w = Inr (fst (last tbl), ?w)"
    if "(\<forall>i<length tbl. ?cum i \<le> ?cum (length tbl - 1)) \<and> ?cum (length tbl - 1) < ?r"
  proof -
    have "\<forall>i<length tbl. ?cum i < ?r"
      using that by (meson le_less_trans)
    then show ?thesis by (rule beyond)
  qed
  show ?thesis
    using first one beyond total_beyond by blast
qed

theorem weighted_choice_first_match_witness:
  "half_half \<noteq> [] \<and> cumulative_mass quiet_generator half_half (length half_half - 1) = 1 \<and>
   weighted_choice quiet_generator half_half (fixed_world 6755399441055744) =
     Inr (asc ''none'', fixed_world 6755399441055744) \<and>
   cumulative_mass quiet_generator quarter_quarter (length quarter_quarter - 1) <
     fst (random_random (fixed_world 6755399441055744)) \<and>
   weighted_choice quiet_generator quarter_quarter (fixed_world 6755399441055744) =
     Inr (asc ''none'', fixed_world 6755399441055744)"
proof -
  let ?w = "fixed_world 6755399441055744"
  have ne: "half_half \<noteq> []" by (simp add: half_half_def)
  have ne': "quarter_quarter \<noteq> []" by (simp add: quarter_quarter_def)
  have r: "fst (random_random ?w) = 3 / 4"
    by (simp add: random_random_fixed random_float_def)
  have w: "snd (random_random ?w) = ?w"
    by (simp add: random_random_fixed)
  have c0: "cumulative_mass quiet_generator half_half 0 = 1 / 2"
    and c1: "cumulative_mass quiet_generator half_half (Suc 0) = 1"
    by (simp_all add: cumulative_mass_def cumulative_from_def half_half_def quiet_generator_def)
  have q0: "cumulative_mass quiet_generator quarter_quarter 0 = 1 / 4"
    and q1: "cumulative_mass quiet_generator quarter_quarter (Suc 0) = 1 / 2"
    by (simp_all add: cumulative_mass_def cumulative_from_def quarter_quarter_def
        quiet_generator_def)
  have l: "length half_half - 1 = Suc 0" "length quarter_quarter - 1 = Suc 0"
    "length half_half - Suc 0 = Suc 0" "length quarter_quarter - Suc 0 = Suc 0"
    by (simp_all add: half_half_def quarter_quarter_def)
  have a: "weighted_choice quiet_generator half_half ?w = Inr (asc ''none'', ?w)"
    using weighted_choice_first_match [OF ne, of ?w quiet_generator, THEN conjunct1, rule_format,
        of "Suc 0"]
    by (simp add: r w c0 c1) (simp add: half_half_def)
  have mx: "\<forall>i<length quarter_quarter. cumulative_mass quiet_generator quarter_quarter i \<le>
      cumulative_mass quiet_generator quarter_quarter (length quarter_quarter - 1)"
  proof (intro allI impI)
    fix i assume "i < length quarter_quarter"
    then have "i = 0 \<or> i = Suc 0" by (auto simp: quarter_quarter_def)
    then show "cumulative_mass quiet_generator quarter_quarter i \<le>
        cumulative_mass quiet_generator quarter_quarter (length quarter_quarter - 1)"
      by (auto simp: l q0 q1)
  qed
  have lt: "cumulative_mass quiet_generator quarter_quarter (length quarter_quarter - 1) <
      fst (random_random ?w)"
    by (simp add: l r q1)
  have b: "weighted_choice quiet_generator quarter_quarter ?w = Inr (asc ''none'', ?w)"
    using weighted_choice_first_match [OF ne', of ?w quiet_generator, THEN conjunct2,
        THEN conjunct2, THEN conjunct2] mx lt
    by (simp add: w) (simp add: quarter_quarter_def)
  show ?thesis using ne lt a b by (simp add: l c1)
qed

text \<open>
  Claim C10. On the empty table \<open>_weighted_choice\<close> raises (taking the last of no
  keys); that is the only table on which it raises, and on every other table it returns
  one of the table's keys.
\<close>

theorem weighted_choice_empty_table:
  "(weighted_choice g tbl w = Inl IndexError \<longleftrightarrow> tbl = []) \<and>
   (tbl \<noteq> [] \<longrightarrow>
      (\<exists>k. k \<in> fst ` set tbl \<and> weighted_choice g tbl w = Inr (k, snd (random_random w))))"
proof (cases tbl)
  case Nil
  then show ?thesis by (simp add: weighted_choice_unfold)
next
  case (Cons kp rest)
  then have ne: "tbl \<noteq> []" by simp
  show ?thesis
  proof (cases "weighted_loop (float_add g) (fst (random_random w)) 0 tbl")
    case None
    have mem: "last (map fst tbl) \<in> fst ` set tbl"
      using ne by (metis last_in_set list.set_map map_is_Nil_conv)
    have "weighted_choice g tbl w = Inr (last (map fst tbl), snd (random_random w))"
      using None ne by (simp add: weighted_choice_unfold)
    with mem ne show ?thesis by auto
  next
    case (Some k)
    then have mem: "k \<in> fst ` set tbl" by (rule weighted_loop_Some_key)
    have "weighted_choice g tbl w = Inr (k, snd (random_random w))"
      using Some by (simp add: weighted_choice_unfold)
    with mem ne show ?thesis by auto
  qed
qed

theorem weighted_choice_empty_table_witness:
  "weighted_choice quiet_generator [] (fixed_world 0) = Inl IndexError \<and> half_half \<noteq> [] \<and>
   (\<exists>k. k \<in> fst ` set half_half \<and>
        weighted_choice quiet_generator half_half (fixed_world 0) =
          Inr (k, snd (random_random (fixed_world 0))))"
proof -
  have ne: "half_half \<noteq> []" by (simp add: half_half_def)
  show ?thesis
    using weighted_choice_empty_table [of quiet_generator "[]" "fixed_world 0"]
      weighted_choice_empty_table [of quiet_generator half_half "fixed_world 0"] ne
    by simp
qed

section \<open>Noise\<close>

lemma random_random_nonneg: "\<not> fst (random_random w) < 0"
  using random_float_range [of "shd (rand w)"] by (simp add: random_random_def)

text \<open>
  Claim C4. \<open>apply_noise\<close> returns its input unchanged when noise is disabled or not
  allowed (without drawing), when the global gate fails (after one draw), whenever every
  noise probability is zero, enabled or not, and after \<open>_set_zero_noise\<close>.
\<close>

theorem apply_noise_identity:
  "(\<not> noise_enabled g \<or> \<not> allow \<longrightarrow> apply_noise g x allow w = Inr (x, w)) \<and>
   (noise_enabled g \<and> allow \<and> global_prob g < fst (random_random w) \<longrightarrow>
      apply_noise g x allow w = Inr (x, snd (random_random w))) \<and>
   (all_noise_zero g \<longrightarrow> (\<exists>w'. apply_noise g x True w = Inr (x, w'))) \<and>
   apply_noise (set_zero_noise g) x True w = Inr (x, w)"
proof (intro conjI impI)
  assume "\<not> noise_enabled g \<or> \<not> allow"
  then show "apply_noise g x allow w = Inr (x, w)"
    by (auto simp: apply_noise_def)
next
  assume "noise_enabled g \<and> allow \<and> global_prob g < fst (random_random w)"
  then show "apply_noise g x allow w = Inr (x, snd (random_random w))"
    by (cases "random_random w") (simp add: apply_noise_def)
next
  assume z: "all_noise_zero g"
  show "\<exists>w'. apply_noise g x True w = Inr (x, w')"
  proof (cases "noise_enabled g")
    case False
    then show ?thesis by (simp add: apply_noise_def)
  next
    case True
    obtain r1 w1 where d1: "random_random w = (r1, w1)" by (cases "random_random w")
    obtain r2 w2 where d2: "random_random w1 = (r2, w2)" by (cases "random_random w1")
    obtain r3 w3 where d3: "random_random w2 = (r3, w3)" by (cases "random_random w2")
    obtain r4 w4 where d4: "random_random w3 = (r4, w4)" by (cases "random_random w3")
    have n2: "\<not> r2 < 0" using random_random_nonneg [of w1] d2 by simp
    have n3: "\<not> r3 < 0" using random_random_nonneg [of w2] d3 by simp
    have n4: "\<not> r4 < 0" using random_random_nonneg [of w3] d4 by simp
    from z have p: "global_prob g = 0" "word_noise_prob g = 0" "spacing_noise_prob g = 0"
      "char_sub_prob g = 0" "extra_char_prob g = 0" "missing_char_prob g = 0"
      by (simp_all add: all_noise_zero_def)
    show ?thesis
      using True n2 n3 n4 by (simp add: apply_noise_def d1 d2 d3 d4 p bind_r_def)
  qed
next
  show "apply_noise (set_zero_noise g) x True w = Inr (x, w)"
    by (simp add: apply_noise_def set_zero_noise_def)
qed

lemma quiet_generator_zero: "all_noise_zero quiet_generator \<and> noise_enabled quiet_generator"
  by (simp add: all_noise_zero_def quiet_generator_def)

lemma random_float_0: "random_float 0 = 0"
  by (simp add: random_float_def)

theorem apply_noise_identity_witness:
  "all_noise_zero quiet_generator \<and> noise_enabled quiet_generator \<and>
   (\<exists>w'. apply_noise quiet_generator (asc ''Nom : '') True (fixed_world 0) = Inr (asc ''Nom : '', w')) \<and>
   global_prob quiet_generator < fst (random_random (fixed_world 1)) \<and>
   apply_noise quiet_generator (asc ''Nom : '') True (fixed_world 1) =
     Inr (asc ''Nom : '', snd (random_random (fixed_world 1)))"
proof -
  have gate: "global_prob quiet_generator < fst (random_random (fixed_world 1))"
    by (simp add: random_random_fixed quiet_generator_def random_float_def)
  show ?thesis
    using apply_noise_identity [of quiet_generator True "asc ''Nom : ''" "fixed_world 0"]
      apply_noise_identity [of quiet_generator True "asc ''Nom : ''" "fixed_world 1"]
      quiet_generator_zero gate
    by simp
qed

section \<open>Character noise\<close>

lemma sub_generator_simps:
  "missing_char_prob sub_generator = 0" "char_sub_prob sub_generator = 1"
  "double_char_prob sub_generator = 1" "extra_char_prob sub_generator = 0"
  "char_subs sub_generator = [(asc ''O'', asc ''0'')]"
  by (simp_all add: sub_generator_def quiet_generator_def)

text \<open>
  For a character that has no entry in the substitution table, an iteration of
  \<open>_apply_character_noise\<close> appends what the specification says: nothing when the
  drop check fires, otherwise the character, then its duplicate, then the filler.
\<close>

lemma character_noise_without_entry:
  "map_of (char_subs g) [c] = None \<Longrightarrow>
   character_noise_loop g (c # cs) result w =
     bind_r (spec_char_step g c w) (\<lambda>out w'. character_noise_loop g cs (result @ out) w')"
  by (simp add: spec_char_step_def bind_r_def Let_def case_prod_beta split: sum.split)

text \<open>
  Claim C3 fails on the code: the duplication step appends the input character, not the
  character just emitted. With the substitution and the duplication both firing on the
  letter O, the code gives \<open>0O\<close>, in which nothing is duplicated, where the
  order drop, substitute, emit, duplicate the emitted character, insert gives \<open>00\<close>.
\<close>

theorem character_noise_duplicate_divergence:
  "apply_character_noise sub_generator (asc ''O'') (fixed_world 0) =
     Inr (asc ''0O'', fixed_world 0) \<and>
   bind_r (spec_char_step sub_generator 79 (fixed_world 0)) (\<lambda>out w. Inr (concat out, w)) =
     Inr (asc ''00'', fixed_world 0) \<and>
   asc ''0O'' \<noteq> asc ''00''"
  by (simp add: apply_character_noise_def spec_char_step_def bind_r_def random_random_fixed
      random_float_0 sub_generator_simps asc_def)

section \<open>Field typos\<close>

text \<open>
  Claim C6. A label with an entry of its own in the field-typo table is resolved by the
  exact tier alone, whatever other keys occur in it as substrings: the result is
  \<open>random.choice\<close> over that entry's variants. When the entry has at least one
  variant, the result is the variant the draw selects, and each variant is selected by
  the draws of its index.
\<close>

theorem apply_field_typo_exact_first:
  assumes "map_of (field_typos g) label = Some variants"
  shows "apply_field_typo g label w = random_choice variants w \<and>
         (variants \<noteq> [] \<longrightarrow>
            apply_field_typo g label w =
              Inr (variants ! (shd (rand w) mod length variants), w\<lparr>rand := stl (rand w)\<rparr>) \<and>
            variants ! (shd (rand w) mod length variants) \<in> set variants \<and>
            (\<forall>i<length variants.
               apply_field_typo g label (w\<lparr>rand := i ## r\<rparr>) =
                 Inr (variants ! i, w\<lparr>rand := r\<rparr>)))"
  using assms by (simp add: apply_field_typo_def random_choice_def)

theorem apply_field_typo_exact_first_witness:
  "map_of (field_typos two_tier_generator) (asc '' Sexe : '') = Some [asc '' SEXE : '', asc '' 5exe : ''] \<and>
   py_in (asc ''Sexe'') (asc '' Sexe : '') \<and>
   apply_field_typo two_tier_generator (asc '' Sexe : '') (fixed_world 1) =
     Inr (asc '' 5exe : '', fixed_world 1)"
proof -
  have m: "map_of (field_typos two_tier_generator) (asc '' Sexe : '') = Some [asc '' SEXE : '', asc '' 5exe : '']"
    by (simp add: two_tier_generator_def quiet_generator_def asc_def)
  have s: "py_in (asc ''Sexe'') (asc '' Sexe : '')"
    by (simp add: asc_def)
  have w: "(fixed_world 1)\<lparr>rand := stl (rand (fixed_world 1))\<rparr> = fixed_world 1"
    by (simp add: fixed_world_def)
  have "apply_field_typo two_tier_generator (asc '' Sexe : '') (fixed_world 1) =
      Inr ([asc '' SEXE : '', asc '' 5exe : ''] !
             (shd (rand (fixed_world 1)) mod length [asc '' SEXE : '', asc '' 5exe : '']),
           (fixed_world 1)\<lparr>rand := stl (rand (fixed_world 1))\<rparr>)"
    using apply_field_typo_exact_first [OF m, of "fixed_world 1"] by blast
  then have "apply_field_typo two_tier_generator (asc '' Sexe : '') (fixed_world 1) =
      Inr (asc '' 5exe : '', fixed_world 1)"
    by (simp add: w) (simp add: fixed_world_def)
  with m s show ?thesis by simp
qed

text \<open>
  Claim C5 fails on the code: after \<open>_set_zero_noise\<close> a label that contains a key
  of the field-typo table is still rewritten, since the two table tiers of
  \<open>apply_field_typo\<close> consult no noise setting.
\<close>

theorem apply_field_typo_clean_changes_label:
  "all_noise_zero (set_zero_noise typo_generator) \<and>
   \<not> noise_enabled (set_zero_noise typo_generator) \<and>
   apply_field_typo (set_zero_noise typo_generator) (asc '' Sexe : '') (fixed_world 0) =
     Inr (asc '' Sexc : '', fixed_world 0) \<and>
   asc '' Sexc : '' \<noteq> asc '' Sexe : ''"
  by (simp add: apply_field_typo_def set_zero_noise_def typo_generator_def quiet_generator_def
      all_noise_zero_def random_choice_def bind_r_def py_replace_def asc_def fixed_world_def)

section \<open>Cities\<close>

lemma py_slice_prefix: "py_slice s 0 (int n) = take n s"
  by (simp add: py_slice_def slice_index_def Let_def min_def)

lemma py_slice_20: "py_slice s 0 20 = take 20 s"
  using py_slice_prefix [of s 20] by simp

lemma last_dropWhile: "dropWhile P xs \<noteq> [] \<Longrightarrow> last (dropWhile P xs) = last xs"
  by (induction xs) (auto split: if_splits)

lemma py_strip_last: "py_strip s \<noteq> [] \<Longrightarrow> \<not> py_isspace (last (py_strip s))"
  unfolding py_strip_def by (simp add: last_rev hd_dropWhile)

lemma py_strip_hd: "py_strip s \<noteq> [] \<Longrightarrow> \<not> py_isspace (hd (py_strip s))"
proof -
  assume ne: "py_strip s \<noteq> []"
  let ?t = "dropWhile py_isspace s"
  from ne have d: "dropWhile py_isspace (rev ?t) \<noteq> []" by (simp add: py_strip_def)
  then have t: "?t \<noteq> []" by (metis dropWhile.simps(1) rev.simps(1))
  have "hd (py_strip s) = last (dropWhile py_isspace (rev ?t))"
    using d by (simp add: py_strip_def hd_rev)
  also have "\<dots> = last (rev ?t)" using d by (rule last_dropWhile)
  also have "\<dots> = hd ?t" using t by (simp add: last_rev)
  finally show ?thesis using t hd_dropWhile [of py_isspace s] by simp
qed

lemma choose_faker_fixed: "choose_faker quiet_generator (fixed_world k) = Inr (k mod 5, fixed_world k)"
  by (simp add: choose_faker_def random_choice_def quiet_generator_def fixed_world_def)

lemma delete_from_erase:
  "map snd (delete_from old ts) = replace_from old [] (map snd ts)"
  by (induction old ts rule: delete_from.induct) (simp_all add: drop_map)

lemma set_delete_from: "set (delete_from old ts) \<subseteq> set ts"
proof (induction old ts rule: delete_from.induct)
  case (1 old)
  then show ?case by simp
next
  case (2 old t ts)
  show ?case
  proof (cases "prefix old (map snd (t # ts))")
    case True
    with 2 have "set (delete_from old (drop (length old - 1) ts)) \<subseteq> set (drop (length old - 1) ts)"
      by simp
    also have "\<dots> \<subseteq> set ts" by (rule set_drop_subset)
    finally show ?thesis using True by auto
  next
    case False
    with 2 show ?thesis by auto
  qed
qed

text \<open>An occurrence that starts inside another occurrence of the same string is a border.\<close>

lemma occurrence_start:
  assumes ub: "unbordered old" and pre: "prefix old (map snd a @ old @ rest)" and a: "a \<noteq> []"
  shows "length old \<le> length a"
proof (rule ccontr)
  assume "\<not> length old \<le> length a"
  then have lt: "length a < length old" by simp
  from pre have "prefix old (map snd a) \<or> (\<exists>us. old = map snd a @ us \<and> prefix us (old @ rest))"
    by (simp add: prefix_append)
  moreover have "\<not> prefix old (map snd a)"
    using lt prefix_length_le by fastforce
  ultimately obtain us where us: "old = map snd a @ us" "prefix us (old @ rest)" by blast
  from us(1) have d: "us = drop (length a) old"
    by (metis append_eq_conv_conj length_map)
  from us(1) lt have "us \<noteq> []" by auto
  from us(2) have "prefix us old \<or> (\<exists>vs. us = old @ vs \<and> prefix vs rest)"
    by (simp add: prefix_append)
  moreover have "\<not> (\<exists>vs. us = old @ vs \<and> prefix vs rest)"
  proof
    assume "\<exists>vs. us = old @ vs \<and> prefix vs rest"
    then obtain vs where "us = old @ vs" by blast
    then have "length old \<le> length us" by simp
    moreover have "length us < length old" using d lt a by (cases a) auto
    ultimately show False by simp
  qed
  ultimately have "prefix us old" by blast
  then have "prefix (drop (length a) old) old" using d by simp
  moreover have "0 < length a" using a by simp
  ultimately show False using ub lt by (simp add: unbordered_def)
qed

lemma delete_from_removes:
  assumes ub: "unbordered old" and ne: "old \<noteq> []" and m: "map snd m = old"
  shows "set (delete_from old (a @ m @ c)) \<subseteq> set a \<union> set c"
proof (induction a rule: length_induct)
  case (1 a)
  show ?case
  proof (cases a)
    case Nil
    from m ne obtain t m' where tm: "m = t # m'" by (cases m) auto
    have l: "length m' = length old - 1" using m tm by auto
    have "prefix old (map snd (t # m' @ c))"
      using m tm by (metis append_Cons map_append prefix_def)
    then have "delete_from old (m @ c) = delete_from old c"
      using tm l by simp
    then show ?thesis using Nil set_delete_from [of old c] by auto
  next
    case (Cons t a')
    show ?thesis
    proof (cases "prefix old (map snd (t # a' @ m @ c))")
      case True
      then have "prefix old (map snd a @ old @ map snd c)"
        using Cons m by simp
      then have le: "length old \<le> length a"
        using ub Cons by (intro occurrence_start) simp_all
      then have d: "drop (length old - 1) (a' @ m @ c) = drop (length old - 1) a' @ m @ c"
        using Cons by simp
      have "length (drop (length old - 1) a') < length a" using Cons by simp
      then have "set (delete_from old (drop (length old - 1) a' @ m @ c)) \<subseteq>
          set (drop (length old - 1) a') \<union> set c"
        using 1 by blast
      moreover have "set (drop (length old - 1) a') \<subseteq> set a"
        using Cons set_drop_subset [of "length old - 1" a'] by auto
      ultimately show ?thesis using True Cons d by auto
    next
      case False
      have "length a' < length a" using Cons by simp
      then have "set (delete_from old (a' @ m @ c)) \<subseteq> set a' \<union> set c"
        using 1 by blast
      then show ?thesis using False Cons by auto
    qed
  qed
qed


lemma delete_from_inside:
  assumes ap: "apart p q" and m: "map snd (m1 @ m2) = q"
  shows "delete_from p (m2 @ c) = m2 @ delete_from p c"
  using m
proof (induction m2 arbitrary: m1)
  case Nil
  then show ?case by simp
next
  case (Cons t m2)
  let ?k = "length m1"
  have k: "?k < length q" using Cons.prems by auto
  have d: "drop ?k q = map snd (t # m2)"
    using Cons.prems by (metis append_eq_conv_conj length_map map_append)
  have no: "\<not> prefix (drop ?k q) p" "\<not> prefix p (drop ?k q)"
    using ap k by (simp_all add: apart_def)
  have "\<not> prefix p (map snd (t # m2 @ c))"
  proof
    assume "prefix p (map snd (t # m2 @ c))"
    then have "prefix p (drop ?k q @ map snd c)" using d by simp
    then have "prefix p (drop ?k q) \<or> (\<exists>us. p = drop ?k q @ us \<and> prefix us (map snd c))"
      by (simp add: prefix_append)
    then show False using no by (auto simp: prefix_def)
  qed
  moreover have "delete_from p (m2 @ c) = m2 @ delete_from p c"
    using Cons.IH [of "m1 @ [t]"] Cons.prems by simp
  ultimately show ?case by simp
qed

lemma delete_from_keeps:
  assumes ap: "apart p q" and m: "map snd m = q"
  shows "\<exists>a1 c1. delete_from p (a @ m @ c) = a1 @ m @ c1 \<and> set a1 \<subseteq> set a \<and> set c1 \<subseteq> set c"
proof (induction a rule: length_induct)
  case (1 a)
  show ?case
  proof (cases a)
    case Nil
    have "delete_from p (m @ c) = m @ delete_from p c"
      using ap m delete_from_inside [of p q "[]" m c] by simp
    then have "delete_from p (a @ m @ c) = [] @ m @ delete_from p c" using Nil by simp
    then show ?thesis using set_delete_from [of p c] by (metis empty_set empty_subsetI)
  next
    case (Cons t a')
    show ?thesis
    proof (cases "prefix p (map snd (t # a' @ m @ c))")
      case True
      have le: "length p \<le> length a"
      proof (rule ccontr)
        assume "\<not> length p \<le> length a"
        then have lt: "length a < length p" by simp
        from True have "prefix p (map snd a @ q @ map snd c)" using Cons m by simp
        then have "prefix p (map snd a) \<or>
            (\<exists>us. p = map snd a @ us \<and> prefix us (q @ map snd c))"
          by (simp add: prefix_append)
        moreover have "\<not> prefix p (map snd a)"
          using lt prefix_length_le by fastforce
        ultimately obtain us where us: "p = map snd a @ us" "prefix us (q @ map snd c)"
          by blast
        from us(1) have d: "us = drop (length a) p"
          by (metis append_eq_conv_conj length_map)
        from us(2) have "prefix us q \<or> (\<exists>vs. us = q @ vs \<and> prefix vs (map snd c))"
          by (simp add: prefix_append)
        then have "prefix (drop (length a) p) q \<or> prefix q (drop (length a) p)"
          using d by (auto simp: prefix_def)
        then show False using ap lt by (simp add: apart_def)
      qed
      then have d: "drop (length p - 1) (a' @ m @ c) = drop (length p - 1) a' @ m @ c"
        using Cons by simp
      have "length (drop (length p - 1) a') < length a" using Cons by simp
      then obtain a1 c1 where r: "delete_from p (drop (length p - 1) a' @ m @ c) = a1 @ m @ c1"
          "set a1 \<subseteq> set (drop (length p - 1) a')" "set c1 \<subseteq> set c"
        using 1 by blast
      have "set (drop (length p - 1) a') \<subseteq> set a"
        using Cons set_drop_subset [of "length p - 1" a'] by auto
      with r(2) have "set a1 \<subseteq> set a" by blast
      moreover have "delete_from p (a @ m @ c) = a1 @ m @ c1"
        using True Cons d r(1) by simp
      ultimately show ?thesis using r(3) by blast
    next
      case False
      have "length a' < length a" using Cons by simp
      then obtain a1 c1 where r: "delete_from p (a' @ m @ c) = a1 @ m @ c1"
          "set a1 \<subseteq> set a'" "set c1 \<subseteq> set c"
        using 1 by blast
      have "delete_from p (a @ m @ c) = (t # a1) @ m @ c1"
        using False Cons r(1) by simp
      moreover have "set (t # a1) \<subseteq> set a" using r(2) Cons by auto
      ultimately show ?thesis using r(3) by blast
    qed
  qed
qed

lemma city_patterns:
  "unbordered (asc ''VILLE'')" "unbordered (asc ''CITY'')" "unbordered (asc ''SAN '')"
  "apart (asc ''VILLE'') (asc ''CITY'')" "apart (asc ''VILLE'') (asc ''SAN '')"
  "apart (asc ''CITY'') (asc ''SAN '')"
  by (simp_all add: unbordered_def apart_def asc_def All_less_Suc)

lemma set_tagged_strip: "set (tagged_strip ts) \<subseteq> set ts"
  by (auto simp: tagged_strip_def dest!: set_dropWhileD)

lemma set_tagged_city:
  "set (tagged_city ts) \<subseteq>
     set (delete_from (asc ''SAN '') (delete_from (asc ''CITY'') (delete_from (asc ''VILLE'') ts)))"
  unfolding tagged_city_def using set_take_subset set_tagged_strip by fast

lemma tagged_city_removes:
  assumes dist: "distinct ts" and dec: "ts = a @ m @ c"
    and pat: "map snd m \<in> {asc ''VILLE'', asc ''CITY'', asc ''SAN ''}"
  shows "set m \<inter> set (tagged_city ts) = {}"
proof -
  let ?V = "asc ''VILLE''" and ?C = "asc ''CITY''" and ?S = "asc ''SAN ''"
  have ne: "?V \<noteq> []" "?C \<noteq> []" "?S \<noteq> []" by (simp_all add: asc_def)
  have "set (delete_from ?S (delete_from ?C (delete_from ?V ts))) \<subseteq> set a \<union> set c"
  proof -
    consider "map snd m = ?V" | "map snd m = ?C" | "map snd m = ?S" using pat by blast
    then show ?thesis
    proof cases
      case 1
      have "set (delete_from ?V ts) \<subseteq> set a \<union> set c"
        unfolding dec using city_patterns(1) ne(1) 1 by (rule delete_from_removes)
      then show ?thesis
        using set_delete_from [of ?S "delete_from ?C (delete_from ?V ts)"]
          set_delete_from [of ?C "delete_from ?V ts"] by blast
    next
      case 2
      obtain a1 c1 where r: "delete_from ?V ts = a1 @ m @ c1" "set a1 \<subseteq> set a" "set c1 \<subseteq> set c"
        unfolding dec using delete_from_keeps [OF city_patterns(4) 2, of a c] by blast
      have "set (delete_from ?C (a1 @ m @ c1)) \<subseteq> set a1 \<union> set c1"
        using city_patterns(2) ne(2) 2 by (rule delete_from_removes)
      then show ?thesis
        using r set_delete_from [of ?S "delete_from ?C (delete_from ?V ts)"] by auto
    next
      case 3
      obtain a1 c1 where r: "delete_from ?V ts = a1 @ m @ c1" "set a1 \<subseteq> set a" "set c1 \<subseteq> set c"
        unfolding dec using delete_from_keeps [OF city_patterns(5) 3, of a c] by blast
      obtain a2 c2 where r2: "delete_from ?C (a1 @ m @ c1) = a2 @ m @ c2"
          "set a2 \<subseteq> set a1" "set c2 \<subseteq> set c1"
        using delete_from_keeps [OF city_patterns(6) 3, of a1 c1] by blast
      have "set (delete_from ?S (a2 @ m @ c2)) \<subseteq> set a2 \<union> set c2"
        using city_patterns(3) ne(3) 3 by (rule delete_from_removes)
      moreover have "delete_from ?S (delete_from ?C (delete_from ?V ts)) =
          delete_from ?S (a2 @ m @ c2)"
        using r(1) r2(1) by simp
      ultimately have "set (delete_from ?S (delete_from ?C (delete_from ?V ts))) \<subseteq>
          set a2 \<union> set c2"
        by simp
      then show ?thesis using r(2,3) r2(2,3) by blast
    qed
  qed
  then have "set (tagged_city ts) \<subseteq> set a \<union> set c"
    using set_tagged_city [of ts] by blast
  moreover have "set m \<inter> (set a \<union> set c) = {}"
    using dist dec by auto
  ultimately show ?thesis by blast
qed

lemma tagged_strip_erase: "map snd (tagged_strip ts) = py_strip (map snd ts)"
  by (simp add: tagged_strip_def py_strip_def rev_map dropWhile_map)

lemma tagged_city_erase:
  "map snd (tagged_city ts) =
     py_slice (py_strip (py_replace (py_replace (py_replace (map snd ts) (asc ''VILLE'') [])
       (asc ''CITY'') []) (asc ''SAN '') [])) 0 20"
proof -
  have ne: "asc ''VILLE'' \<noteq> []" "asc ''CITY'' \<noteq> []" "asc ''SAN '' \<noteq> []"
    by (simp_all add: asc_def)
  show ?thesis
    by (simp add: tagged_city_def py_slice_20 take_map [symmetric] tagged_strip_erase
        delete_from_erase py_replace_def ne)
qed

lemma enumerate_str_erase: "map snd (enumerate_str s) = s"
  by (simp add: enumerate_str_def)

lemma enumerate_str_distinct: "distinct (enumerate_str s)"
  by (simp add: enumerate_str_def distinct_zipI1)

section \<open>Spans\<close>

lemma py_slice_inside:
  assumes "0 \<le> s" "s \<le> e" "e \<le> int (length t)"
  shows "py_slice (t @ u) s e = py_slice t s e"
proof -
  have "nat e \<le> length t" using assms by linarith
  moreover have "nat s \<le> nat e" using assms by linarith
  ultimately show ?thesis
    using assms by (simp add: py_slice_def slice_index_def Let_def min_def)
qed

lemma py_slice_at:
  "py_slice (a @ v @ c) (int (length a)) (int (length a) + int (length v)) = v"
proof -
  have "nat (int (length a) + int (length v)) = length a + length v" by linarith
  then show ?thesis
    by (simp add: py_slice_def slice_index_def Let_def min_def)
qed

lemma py_slice_length:
  assumes "0 \<le> s" "s \<le> e" "e \<le> int (length t)"
  shows "int (length (py_slice t s e)) = e - s"
proof -
  have e: "nat e \<le> length t" using assms by linarith
  have s: "nat s \<le> nat e" using assms by linarith
  have lo: "slice_index (length t) s = nat s"
    using assms e s by (simp add: slice_index_def)
  have hi: "slice_index (length t) e = nat e"
    using assms e by (simp add: slice_index_def)
  have "length (py_slice t s e) = nat e - nat s"
    using e s by (simp add: py_slice_def lo hi Let_def)
  then show ?thesis using assms by simp
qed

lemma spans_ok_bound: "spans_ok t lo es \<Longrightarrow> lo \<le> int (length t)"
proof (induction es arbitrary: lo)
  case Nil
  then show ?case by (simp add: len_def)
next
  case (Cons e es)
  then have "ent_end e \<le> int (length t)" by simp
  with Cons.prems show ?case by simp
qed

lemma spans_ok_more_text: "0 \<le> lo \<Longrightarrow> spans_ok t lo es \<Longrightarrow> spans_ok (t @ u) lo es"
proof (induction es arbitrary: lo)
  case Nil
  then show ?case by (simp add: len_def)
next
  case (Cons e es)
  from Cons.prems have b: "ent_end e \<le> int (length t)"
    using spans_ok_bound [of t "ent_end e" es] by simp
  from Cons.prems have s: "0 \<le> ent_start e" "ent_start e \<le> ent_end e" by simp_all
  have "py_slice (t @ u) (ent_start e) (ent_end e) = py_slice t (ent_start e) (ent_end e)"
    using s b by (rule py_slice_inside)
  moreover have "spans_ok (t @ u) (ent_end e) es"
    using Cons.prems s by (intro Cons.IH) simp_all
  ultimately show ?case using Cons.prems by simp
qed

lemma spans_ok_snoc:
  assumes "0 \<le> lo" "spans_ok t lo es" "int (length t) \<le> s" "s \<le> e"
    and "e \<le> int (length (t @ u))" "py_slice (t @ u) s e = v"
  shows "spans_ok (t @ u) lo (es @ [\<lparr>ent_start = s, ent_end = e, ent_label = l, ent_value = v\<rparr>])"
  using assms(1,2)
proof (induction es arbitrary: lo)
  case Nil
  then show ?case using assms(3-6) by (simp add: len_def)
next
  case (Cons e0 es)
  from Cons.prems have b: "ent_end e0 \<le> int (length t)"
    using spans_ok_bound [of t "ent_end e0" es] by simp
  from Cons.prems have s: "0 \<le> ent_start e0" "ent_start e0 \<le> ent_end e0" by simp_all
  have "py_slice (t @ u) (ent_start e0) (ent_end e0) = py_slice t (ent_start e0) (ent_end e0)"
    using s b by (rule py_slice_inside)
  moreover have "spans_ok (t @ u) (ent_end e0)
      (es @ [\<lparr>ent_start = s, ent_end = e, ent_label = l, ent_value = v\<rparr>])"
    using Cons.prems s by (intro Cons.IH) simp_all
  ultimately show ?case using Cons.prems by simp
qed

lemma spans_ok_each:
  "0 \<le> lo \<Longrightarrow> spans_ok t lo es \<Longrightarrow> e \<in> set es \<Longrightarrow>
   lo \<le> ent_start e \<and> ent_start e \<le> ent_end e \<and> ent_end e \<le> int (length t) \<and>
   py_slice t (ent_start e) (ent_end e) = ent_value e"
proof (induction es arbitrary: lo)
  case Nil
  then show ?case by simp
next
  case (Cons e0 es)
  show ?case
  proof (cases "e = e0")
    case True
    with Cons.prems spans_ok_bound [of t "ent_end e0" es] show ?thesis by simp
  next
    case False
    with Cons.prems have "e \<in> set es" by simp
    moreover from Cons.prems have "0 \<le> ent_end e0" "spans_ok t (ent_end e0) es" by simp_all
    ultimately have "ent_end e0 \<le> ent_start e \<and> ent_start e \<le> ent_end e \<and>
        ent_end e \<le> int (length t) \<and> py_slice t (ent_start e) (ent_end e) = ent_value e"
      by (intro Cons.IH)
    with Cons.prems show ?thesis by simp
  qed
qed

lemma spans_ok_consecutive:
  "spans_ok t lo es \<Longrightarrow> Suc i < length es \<Longrightarrow> ent_end (es ! i) \<le> ent_start (es ! Suc i)"
proof (induction es arbitrary: lo i)
  case Nil
  then show ?case by simp
next
  case (Cons e0 es)
  show ?case
  proof (cases i)
    case 0
    with Cons.prems show ?thesis by (cases es) simp_all
  next
    case (Suc j)
    with Cons.prems have "spans_ok t (ent_end e0) es" "Suc j < length es" by simp_all
    then have "ent_end (es ! j) \<le> ent_start (es ! Suc j)" by (rule Cons.IH)
    with Suc show ?thesis by simp
  qed
qed

section \<open>The builder\<close>

lemma pos_simps:
  "pos (parts_append s b) = pos b" "pos (pos_add n b) = pos b + n"
  "pos (entities_append s' e' l v b) = pos b"
  by (simp_all add: parts_append_def pos_add_def entities_append_def)

lemma ok_plain:
  "builder_ok b \<Longrightarrow> n = len s \<Longrightarrow> builder_ok (pos_add n (parts_append s b))"
  by (simp add: builder_ok_def parts_append_def pos_add_def len_def spans_ok_more_text)

lemma prefix_self_append: "prefix v (v @ x)"
  by simp

lemma ok_entity:
  assumes "builder_ok b" "s = pos b" "e = s + len v" "prefix v text" "n = len text"
  shows "builder_ok (entities_append s e l v (pos_add n (parts_append text b)))"
proof -
  let ?t = "concat (parts b)"
  from assms(4) obtain x where x: "text = v @ x" by (auto simp: prefix_def)
  from assms have p: "pos b = int (length ?t)" and sp: "spans_ok ?t 0 (entities b)"
    by (simp_all add: builder_ok_def len_def)
  have "py_slice (?t @ v @ x) s e = v"
    using assms p py_slice_at [of ?t v x] by (simp add: len_def)
  then have "spans_ok (?t @ v @ x) 0
      (entities b @ [\<lparr>ent_start = s, ent_end = e, ent_label = l, ent_value = v\<rparr>])"
    using sp assms p by (intro spans_ok_snoc) (simp_all add: len_def)
  then show ?thesis
    using assms p x
    by (simp add: builder_ok_def parts_append_def pos_add_def entities_append_def len_def)
qed

lemma ok_given_names: "builder_ok b \<Longrightarrow> builder_ok (given_names_entities i names b)"
proof (induction names arbitrary: i b)
  case Nil
  then show ?case by simp
next
  case (Cons gname rest)
  let ?b1 = "if i > 0 then pos_add 2 (parts_append (asc '', '') b) else b"
  have b1: "builder_ok ?b1"
    using Cons.prems by (simp add: ok_plain len_def asc_def)
  have "builder_ok (entities_append (pos ?b1) (pos (pos_add (len gname) (parts_append gname ?b1)))
      (asc ''Surname_'' @ str_nat (i + 1)) gname (pos_add (len gname) (parts_append gname ?b1)))"
    using b1 by (intro ok_entity) (simp_all add: pos_simps)
  then show ?case
    by (simp add: Let_def Cons.IH)
qed

lemma random_choice_mem: "random_choice xs w = Inr (x, w') \<Longrightarrow> x \<in> set xs"
  by (auto simp: random_choice_def split: if_splits)

lemma bind_r_InrE:
  assumes "bind_r m f = Inr r"
  obtains x w where "m = Inr (x, w)" "f x w = Inr r"
  using assms by (auto simp: bind_r_def split: sum.splits)

lemma ok_simple_header:
  "builder_ok b \<Longrightarrow> simple_header g b w = Inr (b', w') \<Longrightarrow> builder_ok b'"
  unfolding simple_header_def
  by (auto elim!: bind_r_InrE simp: Let_def pos_simps len_def asc_def intro!: ok_entity)

lemma ok_simple_doc_type:
  "builder_ok b \<Longrightarrow> simple_doc_type g b w = Inr (b', w') \<Longrightarrow> builder_ok b'"
  unfolding simple_doc_type_def
  by (auto elim!: bind_r_InrE simp: Let_def pos_simps intro!: ok_entity)

lemma ok_simple_id_number:
  "builder_ok b \<Longrightarrow> simple_id_number g b w = Inr (b', w') \<Longrightarrow> builder_ok b'"
  unfolding simple_id_number_def
  by (auto elim!: bind_r_InrE simp: Let_def pos_simps intro!: ok_entity ok_plain)

lemma ok_simple_nationality:
  "builder_ok b \<Longrightarrow> simple_nationality g b w = Inr (b', w') \<Longrightarrow> builder_ok b'"
  unfolding simple_nationality_def
  by (auto elim!: bind_r_InrE simp: Let_def pos_simps len_def asc_def intro!: ok_entity ok_plain)

lemma ok_simple_two_letter_code:
  "builder_ok b \<Longrightarrow> simple_two_letter_code g surname names b w = Inr (b', w') \<Longrightarrow> builder_ok b'"
  unfolding simple_two_letter_code_def
  by (auto simp: Let_def pos_simps split: prod.splits if_splits list.splits intro!: ok_plain)

lemma ok_simple_signature_noise:
  "builder_ok b \<Longrightarrow> simple_signature_noise g b w = Inr (b', w') \<Longrightarrow> builder_ok b'"
  unfolding simple_signature_noise_def
  by (auto elim!: bind_r_InrE simp: Let_def pos_simps split: prod.splits if_splits intro!: ok_plain)

lemma ok_simple_name:
  "builder_ok b \<Longrightarrow> simple_name g surname b w = Inr (b', w') \<Longrightarrow> builder_ok b'"
  unfolding simple_name_def
  by (auto elim!: bind_r_InrE simp: Let_def pos_simps intro!: ok_entity ok_plain)

lemma ok_simple_social_status:
  "builder_ok b \<Longrightarrow> simple_social_status g b w = Inr (b', w') \<Longrightarrow> builder_ok b'"
  unfolding simple_social_status_def
  by (auto elim!: bind_r_InrE simp: Let_def pos_simps split: prod.splits if_splits
      intro!: ok_entity ok_plain)

lemma ok_simple_given_names:
  "builder_ok b \<Longrightarrow> simple_given_names g names b w = Inr (b', w') \<Longrightarrow> builder_ok b'"
  unfolding simple_given_names_def
  by (auto elim!: bind_r_InrE simp: Let_def pos_simps intro!: ok_given_names ok_plain)

lemma gender_length:
  "random_choice [asc ''M'', asc ''F''] w = Inr (gender, w') \<Longrightarrow> len gender = 1"
  by (drule random_choice_mem) (auto simp: len_def asc_def)

lemma ok_simple_gender:
  "builder_ok b \<Longrightarrow> simple_gender g b w = Inr (b', w') \<Longrightarrow> builder_ok b'"
  unfolding simple_gender_def
  by (auto elim!: bind_r_InrE simp: Let_def pos_simps gender_length intro!: ok_entity ok_plain)

lemma ok_simple_birth_date:
  "builder_ok b \<Longrightarrow> simple_birth_date g b w = Inr (b', w') \<Longrightarrow> builder_ok b'"
  unfolding simple_birth_date_def
  by (auto elim!: bind_r_InrE simp: Let_def pos_simps intro!: ok_entity ok_plain)

lemma ok_simple_birth_place:
  "builder_ok b \<Longrightarrow> simple_birth_place g b w = Inr (b', w') \<Longrightarrow> builder_ok b'"
  unfolding simple_birth_place_def
  by (auto elim!: bind_r_InrE simp: Let_def pos_simps split: prod.splits if_splits
      intro!: ok_entity ok_plain)

lemma ok_simple_height:
  "builder_ok b \<Longrightarrow> simple_height g b w = Inr (b', w') \<Longrightarrow> builder_ok b'"
  unfolding simple_height_def
  by (auto elim!: bind_r_InrE simp: Let_def pos_simps split: prod.splits if_splits
      intro!: ok_entity ok_plain)

lemma ok_simple_signature:
  "builder_ok b \<Longrightarrow> simple_signature g b w = Inr (b', w') \<Longrightarrow> builder_ok b'"
  unfolding simple_signature_def
  by (auto elim!: bind_r_InrE simp: Let_def pos_simps split: prod.splits if_splits
      intro!: ok_plain)

lemma ok_empty_builder: "builder_ok empty_builder"
  by (simp add: builder_ok_def empty_builder_def len_def)

lemma simple_format_builder:
  assumes "generate_simple_format g w = Inr ((text, ents), w')"
  shows "\<exists>b. builder_ok b \<and> text = concat (parts b) \<and> ents = entities b"
proof -
  from assms obtain b1 w1 b2 w2 b3 w3 b4 w4 surname w5 names w6 b7 w7 b8 w8 b9 w9
    b10 w10 b11 w11 b12 w12 b13 w13 b14 w14 b15 w15 b16 w16
    where s: "simple_header g empty_builder w = Inr (b1, w1)"
      "simple_doc_type g b1 w1 = Inr (b2, w2)"
      "simple_id_number g b2 w2 = Inr (b3, w3)"
      "simple_nationality g b3 w3 = Inr (b4, w4)"
      "generate_name g w4 = Inr (surname, w5)"
      "generate_given_names g None w5 = Inr (names, w6)"
      "simple_two_letter_code g surname names b4 w6 = Inr (b7, w7)"
      "simple_signature_noise g b7 w7 = Inr (b8, w8)"
      "simple_name g surname b8 w8 = Inr (b9, w9)"
      "simple_social_status g b9 w9 = Inr (b10, w10)"
      "simple_given_names g names b10 w10 = Inr (b11, w11)"
      "simple_gender g b11 w11 = Inr (b12, w12)"
      "simple_birth_date g b12 w12 = Inr (b13, w13)"
      "simple_birth_place g b13 w13 = Inr (b14, w14)"
      "simple_height g b14 w14 = Inr (b15, w15)"
      "simple_signature g b15 w15 = Inr (b16, w16)"
      and r: "text = concat (parts b16)" "ents = entities b16"
    unfolding generate_simple_format_def
    by (elim bind_r_InrE) (simp add: Let_def)
  have "builder_ok b1" using ok_empty_builder s(1) by (rule ok_simple_header)
  then have "builder_ok b2" using s(2) by (rule ok_simple_doc_type)
  then have "builder_ok b3" using s(3) by (rule ok_simple_id_number)
  then have "builder_ok b4" using s(4) by (rule ok_simple_nationality)
  then have "builder_ok b7" using s(7) by (rule ok_simple_two_letter_code)
  then have "builder_ok b8" using s(8) by (rule ok_simple_signature_noise)
  then have "builder_ok b9" using s(9) by (rule ok_simple_name)
  then have "builder_ok b10" using s(10) by (rule ok_simple_social_status)
  then have "builder_ok b11" using s(11) by (rule ok_simple_given_names)
  then have "builder_ok b12" using s(12) by (rule ok_simple_gender)
  then have "builder_ok b13" using s(13) by (rule ok_simple_birth_date)
  then have "builder_ok b14" using s(14) by (rule ok_simple_birth_place)
  then have "builder_ok b15" using s(15) by (rule ok_simple_height)
  then have "builder_ok b16" using s(16) by (rule ok_simple_signature)
  with r show ?thesis by blast
qed

lemma ok_bilingual_header:
  "builder_ok b \<Longrightarrow> bilingual_header g b w = Inr (b', w') \<Longrightarrow> builder_ok b'"
  unfolding bilingual_header_def
  by (auto elim!: bind_r_InrE simp: Let_def pos_simps len_def asc_def intro!: ok_entity ok_plain)

lemma ok_bilingual_doc_type:
  "builder_ok b \<Longrightarrow> bilingual_doc_type g b w = Inr (b', w') \<Longrightarrow> builder_ok b'"
  unfolding bilingual_doc_type_def
  by (auto elim!: bind_r_InrE simp: Let_def pos_simps intro!: ok_entity)

lemma ok_bilingual_name:
  "builder_ok b \<Longrightarrow> bilingual_name g b w = Inr (b', w') \<Longrightarrow> builder_ok b'"
  unfolding bilingual_name_def
  by (auto elim!: bind_r_InrE simp: Let_def pos_simps intro!: ok_entity ok_plain)

lemma ok_bilingual_given_names:
  "builder_ok b \<Longrightarrow> bilingual_given_names g b w = Inr (b', w') \<Longrightarrow> builder_ok b'"
  unfolding bilingual_given_names_def
  by (auto elim!: bind_r_InrE simp: Let_def pos_simps split: prod.splits
      intro!: ok_given_names ok_plain)

lemma ok_bilingual_labels:
  "builder_ok b \<Longrightarrow> bilingual_labels g b w = Inr (b', w') \<Longrightarrow> builder_ok b'"
  unfolding bilingual_labels_def
  by (auto elim!: bind_r_InrE simp: Let_def pos_simps intro!: ok_plain)

lemma ok_bilingual_gender:
  "builder_ok b \<Longrightarrow> bilingual_gender g b w = Inr (b', w') \<Longrightarrow> builder_ok b'"
proof -
  assume ok: "builder_ok b" and run: "bilingual_gender g b w = Inr (b', w')"
  from run obtain gender w1 where c: "random_choice [asc ''M'', asc ''F''] w = Inr (gender, w1)"
    and b': "b' = entities_append (pos b) (pos b + 1) (asc ''Gender'') gender
                    (pos_add 2 (parts_append (gender @ asc '' '') b))"
    unfolding bilingual_gender_def by (elim bind_r_InrE) (simp add: Let_def)
  have l: "len gender = 1" using c by (rule gender_length)
  show "builder_ok b'"
    unfolding b' using ok l by (intro ok_entity) (simp_all add: len_def asc_def)
qed

lemma ok_bilingual_nationality:
  "builder_ok b \<Longrightarrow> bilingual_nationality g b w = Inr (b', w') \<Longrightarrow> builder_ok b'"
  unfolding bilingual_nationality_def
  by (auto elim!: bind_r_InrE simp: Let_def pos_simps len_def asc_def intro!: ok_entity)

lemma ok_bilingual_birth_date:
  "builder_ok b \<Longrightarrow> bilingual_birth_date g b w = Inr (b', w') \<Longrightarrow> builder_ok b'"
  unfolding bilingual_birth_date_def
  by (auto elim!: bind_r_InrE simp: Let_def pos_simps intro!: ok_entity)

lemma ok_bilingual_birth_place:
  "builder_ok b \<Longrightarrow> bilingual_birth_place g b w = Inr (b', w') \<Longrightarrow> builder_ok b'"
  unfolding bilingual_birth_place_def
  by (auto elim!: bind_r_InrE simp: Let_def pos_simps split: prod.splits if_splits
      intro!: ok_entity ok_plain)

lemma ok_bilingual_alt_name:
  "builder_ok b \<Longrightarrow> bilingual_alt_name g b w = Inr (b', w') \<Longrightarrow> builder_ok b'"
  unfolding bilingual_alt_name_def
  by (auto elim!: bind_r_InrE simp: Let_def pos_simps split: prod.splits if_splits
      intro!: ok_entity ok_plain)

lemma ok_bilingual_document_number:
  "builder_ok b \<Longrightarrow> bilingual_document_number g b w = Inr (b', w') \<Longrightarrow> builder_ok b'"
  unfolding bilingual_document_number_def
  by (auto elim!: bind_r_InrE simp: Let_def pos_simps intro!: ok_entity ok_plain)

lemma ok_bilingual_expiry_date:
  "builder_ok b \<Longrightarrow> bilingual_expiry_date g b w = Inr (b', w') \<Longrightarrow> builder_ok b'"
  unfolding bilingual_expiry_date_def
  by (auto elim!: bind_r_InrE simp: Let_def pos_simps split: prod.splits if_splits
      intro!: ok_entity ok_plain)

lemma two_letter_noise_length:
  "random_choice two_letter_noises w = Inr (noise, w') \<Longrightarrow> len noise = 3"
  by (drule random_choice_mem) (auto simp: len_def asc_def two_letter_noises_def)

lemma ok_bilingual_support_number:
  "builder_ok b \<Longrightarrow> bilingual_support_number g b w = Inr (b', w') \<Longrightarrow> builder_ok b'"
  unfolding bilingual_support_number_def
  by (auto elim!: bind_r_InrE simp: Let_def pos_simps two_letter_noise_length
      split: prod.splits if_splits intro!: ok_entity ok_plain)
    (simp_all add: len_def asc_def)

lemma bilingual_format_builder:
  assumes "generate_bilingual_format g w = Inr ((text, ents), w')"
  shows "\<exists>b. builder_ok b \<and> text = concat (parts b) \<and> ents = entities b"
proof -
  from assms obtain b1 w1 b2 w2 b3 w3 b4 w4 b5 w5 b6 w6 b7 w7 b8 w8 b9 w9
    b10 w10 b11 w11 b12 w12 b13 w13
    where s: "bilingual_header g empty_builder w = Inr (b1, w1)"
      "bilingual_doc_type g b1 w1 = Inr (b2, w2)"
      "bilingual_name g b2 w2 = Inr (b3, w3)"
      "bilingual_given_names g b3 w3 = Inr (b4, w4)"
      "bilingual_labels g b4 w4 = Inr (b5, w5)"
      "bilingual_gender g b5 w5 = Inr (b6, w6)"
      "bilingual_nationality g b6 w6 = Inr (b7, w7)"
      "bilingual_birth_date g b7 w7 = Inr (b8, w8)"
      "bilingual_birth_place g b8 w8 = Inr (b9, w9)"
      "bilingual_alt_name g b9 w9 = Inr (b10, w10)"
      "bilingual_document_number g b10 w10 = Inr (b11, w11)"
      "bilingual_expiry_date g b11 w11 = Inr (b12, w12)"
      "bilingual_support_number g b12 w12 = Inr (b13, w13)"
      and r: "text = concat (parts b13)" "ents = entities b13"
    unfolding generate_bilingual_format_def
    by (elim bind_r_InrE) (simp add: Let_def)
  have "builder_ok b1" using ok_empty_builder s(1) by (rule ok_bilingual_header)
  then have "builder_ok b2" using s(2) by (rule ok_bilingual_doc_type)
  then have "builder_ok b3" using s(3) by (rule ok_bilingual_name)
  then have "builder_ok b4" using s(4) by (rule ok_bilingual_given_names)
  then have "builder_ok b5" using s(5) by (rule ok_bilingual_labels)
  then have "builder_ok b6" using s(6) by (rule ok_bilingual_gender)
  then have "builder_ok b7" using s(7) by (rule ok_bilingual_nationality)
  then have "builder_ok b8" using s(8) by (rule ok_bilingual_birth_date)
  then have "builder_ok b9" using s(9) by (rule ok_bilingual_birth_place)
  then have "builder_ok b10" using s(10) by (rule ok_bilingual_alt_name)
  then have "builder_ok b11" using s(11) by (rule ok_bilingual_document_number)
  then have "builder_ok b12" using s(12) by (rule ok_bilingual_expiry_date)
  then have "builder_ok b13" using s(13) by (rule ok_bilingual_support_number)
  with r show ?thesis by blast
qed

section \<open>Runs in a fixed world\<close>

lemma fixed_world_step: "(fixed_world k)\<lparr>rand := stl (rand (fixed_world k))\<rparr> = fixed_world k"
  by (simp add: fixed_world_def)

lemma random_choice_fixed:
  "xs \<noteq> [] \<Longrightarrow> random_choice xs (fixed_world 0) = Inr (hd xs, fixed_world 0)"
  by (cases xs) (simp_all add: random_choice_def fixed_world_def)

lemma random_randint_fixed: "random_randint a b (fixed_world 0) = (a, fixed_world 0)"
  by (simp add: random_randint_def fixed_world_def)

lemma random_random_zero: "random_random (fixed_world 0) = (0, fixed_world 0)"
  by (simp add: random_random_fixed random_float_0)

lemma faker_fixed:
  "faker_last_name (fixed_world k) = (asc ''DUPONT'', fixed_world k)"
  "faker_first_name (fixed_world k) = (asc ''MARIE'', fixed_world k)"
  "faker_city (fixed_world k) = (asc ''PARIS'', fixed_world k)"
  "faker_date_of_birth (fixed_world k) = ((1, 2, 1990), fixed_world k)"
  by (simp_all add: faker_last_name_def faker_first_name_def faker_city_def
      faker_date_of_birth_def fixed_world_def)

lemma quiet_fields:
  "noise_enabled quiet_generator" "global_prob quiet_generator = 0"
  "word_noise_prob quiet_generator = 0" "spacing_noise_prob quiet_generator = 0"
  "char_sub_prob quiet_generator = 0" "extra_char_prob quiet_generator = 0"
  "missing_char_prob quiet_generator = 0" "double_char_prob quiet_generator = 0"
  "field_typos quiet_generator = []" "simple_probs quiet_generator = []"
  "bilingual_probs quiet_generator = []" "signature_noise quiet_generator = []"
  "fakers quiet_generator = 5" "str_upper quiet_generator = upper_ascii"
  "float_add quiet_generator = (+)"
  by (simp_all add: quiet_generator_def)

lemma apply_noise_quiet: "apply_noise quiet_generator s True (fixed_world 0) = Inr (s, fixed_world 0)"
  by (simp add: apply_noise_def quiet_fields random_random_zero bind_r_def)

lemma apply_field_typo_quiet:
  "apply_field_typo quiet_generator s (fixed_world 0) = Inr (s, fixed_world 0)"
  by (simp add: apply_field_typo_def quiet_fields apply_noise_quiet)

lemma choose_faker_quiet: "choose_faker quiet_generator (fixed_world 0) = Inr (0, fixed_world 0)"
  by (simp add: choose_faker_def quiet_fields random_choice_def fixed_world_def)

lemma upper_ascii_asc:
  "upper_ascii (asc ''DUPONT'') = asc ''DUPONT''" "upper_ascii (asc ''MARIE'') = asc ''MARIE''"
  "upper_ascii (asc ''PARIS'') = asc ''PARIS''"
  by (simp_all add: upper_ascii_def asc_def)

lemma generate_name_quiet: "generate_name quiet_generator (fixed_world 0) = Inr (asc ''DUPONT'', fixed_world 0)"
  by (simp add: generate_name_def choose_faker_quiet bind_r_def faker_fixed quiet_fields upper_ascii_asc)

lemma generate_given_names_quiet:
  "generate_given_names quiet_generator None (fixed_world 0) = Inr ([asc ''MARIE''], fixed_world 0)"
  by (simp add: generate_given_names_def random_randint_fixed choose_faker_quiet faker_fixed
      quiet_fields upper_ascii_asc)

lemma str_nat_digit: "n < 10 \<Longrightarrow> str_nat n = [digit_char n]"
  by (simp add: str_nat.simps)

lemma random_digits_fixed: "random_digits n (fixed_world 0) = (replicate n 48, fixed_world 0)"
  by (induction n) (simp_all add: random_randint_fixed str_nat_digit digit_char_def)

lemma generate_id_number_quiet:
  "generate_id_number quiet_generator (fixed_world 0) = Inr (asc ''000000000000'', fixed_world 0)"
  by (simp add: generate_id_number_def random_choice_fixed bind_r_def random_digits_fixed asc_def)
    (simp add: numeral_eq_Suc)

lemma generate_date_quiet:
  "generate_date quiet_generator (fixed_world 0) = Inr (asc ''01.02.1990'', fixed_world 0)"
  by (simp add: generate_date_def choose_faker_quiet bind_r_def faker_fixed random_choice_fixed
      fmt_02d_def str_nat.simps [of 1990] str_nat.simps [of 199] str_nat.simps [of 19]
      str_nat_digit digit_char_def asc_def)

lemma generate_city_quiet:
  "generate_city quiet_generator (fixed_world 0) = Inr (asc ''PARIS'', fixed_world 0)"
  by (simp add: generate_city_def choose_faker_quiet bind_r_def faker_fixed quiet_fields
      upper_ascii_asc py_slice_20) (simp add: asc_def py_replace_def py_strip_def py_isspace_def)

lemma generate_height_quiet:
  "generate_height quiet_generator (fixed_world 0) = Inr (asc ''1 50m'', fixed_world 0)"
  by (simp add: generate_height_def random_randint_fixed random_choice_fixed bind_r_def
      str_nat.simps [of 50] str_nat_digit digit_char_def asc_def)


lemmas quiet_eval = apply_noise_quiet apply_field_typo_quiet generate_name_quiet
  generate_given_names_quiet generate_id_number_quiet generate_date_quiet generate_city_quiet
  generate_height_quiet random_random_zero random_choice_fixed quiet_fields

lemmas simple_blocks = simple_header_def simple_doc_type_def simple_id_number_def
  simple_nationality_def simple_two_letter_code_def simple_signature_noise_def simple_name_def
  simple_social_status_def simple_given_names_def simple_gender_def simple_birth_date_def
  simple_birth_place_def simple_height_def simple_signature_def

lemmas builder_ops = parts_append_def pos_add_def entities_append_def empty_builder_def len_def

lemma quiet_simple_run:
  "generate_simple_format quiet_generator (fixed_world 0) =
     Inr ((quiet_simple_text, quiet_simple_entities), fixed_world 0)"
  by (simp add: quiet_simple_text_def quiet_simple_entities_def generate_simple_format_def simple_blocks quiet_eval bind_r_def builder_ops
      dict_get_def header_variants_def social_status_types_def simple_noise_default_def
      weighted_choice_def str_nat_digit digit_char_def asc_def)


lemma mute_fields:
  "noise_enabled mute_generator" "global_prob mute_generator = 1"
  "word_noise_prob mute_generator = 0" "spacing_noise_prob mute_generator = 0"
  "char_sub_prob mute_generator = 0" "extra_char_prob mute_generator = 0"
  "missing_char_prob mute_generator = 1" "double_char_prob mute_generator = 0"
  "field_typos mute_generator = []" "simple_probs mute_generator = []"
  "bilingual_probs mute_generator = []" "signature_noise mute_generator = []"
  "fakers mute_generator = 5" "str_upper mute_generator = upper_ascii"
  "float_add mute_generator = (+)"
  by (simp_all add: mute_generator_def quiet_generator_def)

lemma character_noise_loop_mute:
  "character_noise_loop mute_generator s result (fixed_world 0) = Inr (result, fixed_world 0)"
  by (induction s) (simp_all add: random_random_zero mute_fields)

lemma apply_noise_mute: "apply_noise mute_generator s True (fixed_world 0) = Inr ([], fixed_world 0)"
  by (simp add: apply_noise_def mute_fields random_random_zero bind_r_def
      apply_character_noise_def character_noise_loop_mute)

lemma apply_field_typo_mute:
  "apply_field_typo mute_generator s (fixed_world 0) = Inr ([], fixed_world 0)"
  by (simp add: apply_field_typo_def mute_fields apply_noise_mute)

lemma choose_faker_mute: "choose_faker mute_generator (fixed_world 0) = Inr (0, fixed_world 0)"
  by (simp add: choose_faker_def mute_fields random_choice_def fixed_world_def)

lemma generate_name_mute: "generate_name mute_generator (fixed_world 0) = Inr (asc ''DUPONT'', fixed_world 0)"
  by (simp add: generate_name_def choose_faker_mute bind_r_def faker_fixed mute_fields upper_ascii_asc)

lemma generate_given_names_mute:
  "generate_given_names mute_generator None (fixed_world 0) = Inr ([asc ''MARIE''], fixed_world 0)"
  by (simp add: generate_given_names_def random_randint_fixed choose_faker_mute faker_fixed
      mute_fields upper_ascii_asc)

lemma generate_id_number_any:
  "generate_id_number g (fixed_world 0) = Inr (asc ''000000000000'', fixed_world 0)"
  by (simp add: generate_id_number_def random_choice_fixed bind_r_def random_digits_fixed asc_def)
    (simp add: numeral_eq_Suc)

lemma generate_date_mute:
  "generate_date mute_generator (fixed_world 0) = Inr (asc ''01.02.1990'', fixed_world 0)"
  by (simp add: generate_date_def choose_faker_mute bind_r_def faker_fixed random_choice_fixed
      fmt_02d_def str_nat.simps [of 1990] str_nat.simps [of 199] str_nat.simps [of 19]
      str_nat_digit digit_char_def asc_def)

lemma generate_city_mute:
  "generate_city mute_generator (fixed_world 0) = Inr (asc ''PARIS'', fixed_world 0)"
  by (simp add: generate_city_def choose_faker_mute bind_r_def faker_fixed mute_fields
      upper_ascii_asc py_slice_20) (simp add: asc_def py_replace_def py_strip_def py_isspace_def)

lemma generate_height_any:
  "generate_height g (fixed_world 0) = Inr (asc ''1 50m'', fixed_world 0)"
  by (simp add: generate_height_def random_randint_fixed random_choice_fixed bind_r_def
      str_nat.simps [of 50] str_nat_digit digit_char_def asc_def)

lemmas mute_eval = apply_noise_mute apply_field_typo_mute generate_name_mute
  generate_given_names_mute generate_id_number_any generate_date_mute generate_city_mute
  generate_height_any random_random_zero random_choice_fixed mute_fields

lemma mute_simple_run:
  "generate_simple_format mute_generator (fixed_world 0) =
     Inr ((mute_simple_text, mute_simple_entities), fixed_world 0)"
  by (simp add: mute_simple_text_def mute_simple_entities_def generate_simple_format_def simple_blocks mute_eval bind_r_def builder_ops
      dict_get_def header_variants_def social_status_types_def simple_noise_default_def
      weighted_choice_def str_nat_digit digit_char_def asc_def)


lemmas bilingual_blocks = bilingual_header_def bilingual_doc_type_def bilingual_name_def
  bilingual_given_names_def bilingual_labels_def bilingual_gender_def bilingual_nationality_def
  bilingual_birth_date_def bilingual_birth_place_def bilingual_alt_name_def
  bilingual_document_number_def bilingual_expiry_date_def bilingual_support_number_def

lemma generate_given_names_quiet_one:
  "generate_given_names quiet_generator (Some (Suc 0)) (fixed_world 0) = Inr ([asc ''MARIE''], fixed_world 0)"
  by (simp add: generate_given_names_def choose_faker_quiet faker_fixed
      quiet_fields upper_ascii_asc)

lemma generate_expiry_date_any:
  "generate_expiry_date g 1980 (fixed_world 0) = Inr (asc ''01 01 2013'', fixed_world 0)"
  by (simp add: generate_expiry_date_def random_randint_fixed fmt_02d_def
      str_nat.simps [of 2013] str_nat.simps [of 201] str_nat.simps [of 20]
      str_nat_digit digit_char_def asc_def)

lemma generate_support_number_any:
  "generate_support_number g (fixed_world 0) = Inr (asc ''100000'', fixed_world 0)"
  by (simp add: generate_support_number_def random_randint_fixed
      str_nat.simps [of 100000] str_nat.simps [of 10000] str_nat.simps [of 1000]
      str_nat.simps [of 100] str_nat.simps [of 10]
      str_nat_digit digit_char_def asc_def)

lemma quiet_bilingual_run:
  "generate_bilingual_format quiet_generator (fixed_world 0) =
     Inr ((quiet_bilingual_text, quiet_bilingual_entities), fixed_world 0)"
  by (simp add: quiet_bilingual_text_def quiet_bilingual_entities_def generate_bilingual_format_def bilingual_blocks quiet_eval bind_r_def builder_ops
      generate_given_names_quiet_one generate_expiry_date_any generate_support_number_any
      random_randint_fixed
      dict_get_def header_variants_def nationality_codes_def bilingual_noise_default_def
      weighted_choice_def str_nat_digit digit_char_def asc_def)

section \<open>The samples\<close>

lemma sample_builder:
  assumes "generate_simple_format g w = Inr ((text, ents), w') \<or>
           generate_bilingual_format g w = Inr ((text, ents), w')"
  shows "spans_ok text 0 ents"
proof -
  from assms obtain b where "builder_ok b" "text = concat (parts b)" "ents = entities b"
    using simple_format_builder bilingual_format_builder by blast
  then show ?thesis by (simp add: builder_ok_def)
qed

text \<open>
  Claim C1. In every sample of either format, under any generator settings and any
  random outcome, each entity lies inside the text and its span holds its value; the
  span ends inside the text, so nothing appended to the text later changes what it
  holds.
\<close>

theorem span_correctness:
  assumes "generate_simple_format g w = Inr ((text, ents), w') \<or>
           generate_bilingual_format g w = Inr ((text, ents), w')"
  shows "\<forall>e\<in>set ents.
           0 \<le> ent_start e \<and> ent_start e \<le> ent_end e \<and> ent_end e \<le> len text \<and>
           py_slice text (ent_start e) (ent_end e) = ent_value e \<and>
           (\<forall>later. py_slice (text @ later) (ent_start e) (ent_end e) = ent_value e)"
proof
  fix e assume e: "e \<in> set ents"
  have "spans_ok text 0 ents" using assms by (rule sample_builder)
  then have h: "0 \<le> ent_start e \<and> ent_start e \<le> ent_end e \<and> ent_end e \<le> int (length text) \<and>
      py_slice text (ent_start e) (ent_end e) = ent_value e"
    using e spans_ok_each [of 0 "text" ents e] by simp
  then have "\<forall>later. py_slice (text @ later) (ent_start e) (ent_end e) = ent_value e"
    using py_slice_inside [of "ent_start e" "ent_end e" "text"] by simp
  with h show "0 \<le> ent_start e \<and> ent_start e \<le> ent_end e \<and> ent_end e \<le> len text \<and>
      py_slice text (ent_start e) (ent_end e) = ent_value e \<and>
      (\<forall>later. py_slice (text @ later) (ent_start e) (ent_end e) = ent_value e)"
    by (simp add: len_def)
qed

theorem span_correctness_witness:
  "generate_simple_format quiet_generator (fixed_world 0) =
     Inr ((quiet_simple_text, quiet_simple_entities), fixed_world 0) \<and>
   generate_bilingual_format quiet_generator (fixed_world 0) =
     Inr ((quiet_bilingual_text, quiet_bilingual_entities), fixed_world 0) \<and>
   py_slice quiet_simple_text 115 129 = asc ''DUPONT- DUPONT'' \<and>
   py_slice quiet_bilingual_text 183 186 = asc ''FRA''"
proof -
  have a: "quiet_simple_entities ! 5 \<in> set quiet_simple_entities"
    by (simp add: quiet_simple_entities_def)
  have b: "quiet_bilingual_entities ! 5 \<in> set quiet_bilingual_entities"
    by (simp add: quiet_bilingual_entities_def)
  have "py_slice quiet_simple_text (ent_start (quiet_simple_entities ! 5))
          (ent_end (quiet_simple_entities ! 5)) = ent_value (quiet_simple_entities ! 5)"
    using span_correctness [of quiet_generator "fixed_world 0" quiet_simple_text
        quiet_simple_entities "fixed_world 0"] quiet_simple_run a by blast
  moreover have "py_slice quiet_bilingual_text (ent_start (quiet_bilingual_entities ! 5))
          (ent_end (quiet_bilingual_entities ! 5)) = ent_value (quiet_bilingual_entities ! 5)"
    using span_correctness [of quiet_generator "fixed_world 0" quiet_bilingual_text
        quiet_bilingual_entities "fixed_world 0"] quiet_bilingual_run b by blast
  ultimately show ?thesis
    using quiet_simple_run quiet_bilingual_run
    by (simp add: quiet_simple_entities_def quiet_bilingual_entities_def)
qed

text \<open>
  Claim C7, amended. In every sample of either format the entities are in text order
  without any sorting: each entity ends no later than the next one starts, so the starts
  never decrease, and they increase strictly after an entity whose value is not empty.
\<close>

theorem entity_order:
  assumes "generate_simple_format g w = Inr ((text, ents), w') \<or>
           generate_bilingual_format g w = Inr ((text, ents), w')"
  shows "\<forall>i. Suc i < length ents \<longrightarrow>
           ent_end (ents ! i) \<le> ent_start (ents ! Suc i) \<and>
           ent_start (ents ! i) \<le> ent_start (ents ! Suc i) \<and>
           (ent_value (ents ! i) \<noteq> [] \<longrightarrow> ent_start (ents ! i) < ent_start (ents ! Suc i))"
proof (intro allI impI)
  fix i assume i: "Suc i < length ents"
  have sp: "spans_ok text 0 ents" using assms by (rule sample_builder)
  have next_start: "ent_end (ents ! i) \<le> ent_start (ents ! Suc i)"
    using sp i by (rule spans_ok_consecutive)
  have mem: "ents ! i \<in> set ents" using i by simp
  have h: "0 \<le> ent_start (ents ! i)" "ent_start (ents ! i) \<le> ent_end (ents ! i)"
    "ent_end (ents ! i) \<le> int (length text)"
    "py_slice text (ent_start (ents ! i)) (ent_end (ents ! i)) = ent_value (ents ! i)"
    using spans_ok_each [of 0 "text" ents "ents ! i"] sp mem by simp_all
  have "int (length (ent_value (ents ! i))) = ent_end (ents ! i) - ent_start (ents ! i)"
    using py_slice_length [OF h(1,2,3)] h(4) by simp
  moreover have "ent_value (ents ! i) \<noteq> [] \<longrightarrow> 0 < int (length (ent_value (ents ! i)))"
    by simp
  ultimately have "ent_value (ents ! i) \<noteq> [] \<longrightarrow> ent_start (ents ! i) < ent_end (ents ! i)"
    by linarith
  with next_start h(2)
  show "ent_end (ents ! i) \<le> ent_start (ents ! Suc i) \<and>
      ent_start (ents ! i) \<le> ent_start (ents ! Suc i) \<and>
      (ent_value (ents ! i) \<noteq> [] \<longrightarrow> ent_start (ents ! i) < ent_start (ents ! Suc i))"
    by linarith
qed

theorem entity_order_witness:
  "generate_simple_format quiet_generator (fixed_world 0) =
     Inr ((quiet_simple_text, quiet_simple_entities), fixed_world 0) \<and>
   Suc 4 < length quiet_simple_entities \<and>
   ent_value (quiet_simple_entities ! 4) \<noteq> [] \<and>
   ent_end (quiet_simple_entities ! 4) \<le> ent_start (quiet_simple_entities ! Suc 4) \<and>
   ent_start (quiet_simple_entities ! 4) < ent_start (quiet_simple_entities ! Suc 4)"
proof -
  have l: "Suc 4 < length quiet_simple_entities"
    by (simp add: quiet_simple_entities_def)
  have v: "ent_value (quiet_simple_entities ! 4) \<noteq> []"
    by (simp add: quiet_simple_entities_def asc_def)
  show ?thesis
    using entity_order [of quiet_generator "fixed_world 0" quiet_simple_text
        quiet_simple_entities "fixed_world 0"] quiet_simple_run l v by blast
qed

text \<open>
  Claim C7 as stated fails: when the noise drops every character of the document type
  and of the number label, the DOC\_TYPE entity and the DNI entity both start at offset
  1, so the starts are not strictly increasing.
\<close>

theorem entity_order_strict_counterexample:
  "generate_simple_format mute_generator (fixed_world 0) =
     Inr ((mute_simple_text, mute_simple_entities), fixed_world 0) \<and>
   ent_label (mute_simple_entities ! 1) = asc ''DOC_TYPE'' \<and>
   ent_label (mute_simple_entities ! 2) = asc ''DNI'' \<and>
   ent_start (mute_simple_entities ! 1) = 1 \<and> ent_start (mute_simple_entities ! 2) = 1 \<and>
   \<not> ent_start (mute_simple_entities ! 1) < ent_start (mute_simple_entities ! 2)"
  using mute_simple_run by (simp add: mute_simple_entities_def)

section \<open>Given names\<close>

text \<open>
  Claim C8. In the simple format with exactly three given names, the given-name section
  appends the label, then the three names separated by \<open>, \<close>, and records exactly
  three entities, labelled Surname\_1, Surname\_2, Surname\_3 in this order, one for each
  name at its place.
\<close>

theorem given_name_indexing:
  assumes "simple_given_names g [g1, g2, g3] b w = Inr (b', w')"
  shows "\<exists>label_text p.
           p = pos b + len label_text \<and>
           parts b' = parts b @ [label_text, g1, asc '', '', g2, asc '', '', g3] \<and>
           entities b' = entities b @
             [\<lparr>ent_start = p, ent_end = p + len g1,
                ent_label = asc ''Surname_1'', ent_value = g1\<rparr>,
              \<lparr>ent_start = p + len g1 + 2, ent_end = p + len g1 + 2 + len g2,
                ent_label = asc ''Surname_2'', ent_value = g2\<rparr>,
              \<lparr>ent_start = p + len g1 + 2 + len g2 + 2,
                ent_end = p + len g1 + 2 + len g2 + 2 + len g3,
                ent_label = asc ''Surname_3'', ent_value = g3\<rparr>]"
proof -
  from assms obtain noisy w1 where
    b': "b' = given_names_entities 0 [g1, g2, g3]
           (pos_add (len (asc '' '' @ noisy @ asc '': ''))
              (parts_append (asc '' '' @ noisy @ asc '': '') b))"
    unfolding simple_given_names_def Let_def
    by (elim bind_r_InrE) (auto simp del: given_names_entities.simps)
  let ?l = "asc '' '' @ noisy @ asc '': ''"
  have "parts b' = parts b @ [?l, g1, asc '', '', g2, asc '', '', g3]"
    unfolding b' by (simp add: Let_def parts_append_def pos_add_def entities_append_def)
  moreover have "entities b' = entities b @
             [\<lparr>ent_start = pos b + len ?l, ent_end = pos b + len ?l + len g1,
                ent_label = asc ''Surname_1'', ent_value = g1\<rparr>,
              \<lparr>ent_start = pos b + len ?l + len g1 + 2,
                ent_end = pos b + len ?l + len g1 + 2 + len g2,
                ent_label = asc ''Surname_2'', ent_value = g2\<rparr>,
              \<lparr>ent_start = pos b + len ?l + len g1 + 2 + len g2 + 2,
                ent_end = pos b + len ?l + len g1 + 2 + len g2 + 2 + len g3,
                ent_label = asc ''Surname_3'', ent_value = g3\<rparr>]"
    unfolding b'
    by (simp add: Let_def parts_append_def pos_add_def entities_append_def str_nat_digit
        digit_char_def asc_def)
  ultimately show ?thesis by blast
qed

theorem given_name_indexing_witness:
  "simple_given_names quiet_generator [asc ''MARIE'', asc ''ANNE'', asc ''LOUISE''] empty_builder
     (fixed_world 0) =
     Inr (three_names_builder, fixed_world 0) \<and>
   map ent_label (entities three_names_builder) =
     [asc ''Surname_1'', asc ''Surname_2'', asc ''Surname_3'']"
proof -
  have run: "simple_given_names quiet_generator [asc ''MARIE'', asc ''ANNE'', asc ''LOUISE'']
      empty_builder (fixed_world 0) = Inr (three_names_builder, fixed_world 0)"
    by (simp add: simple_given_names_def apply_field_typo_quiet bind_r_def builder_ops
        three_names_builder_def str_nat_digit digit_char_def asc_def)
  from given_name_indexing [OF run] have
    "map ent_label (entities three_names_builder) =
       [asc ''Surname_1'', asc ''Surname_2'', asc ''Surname_3'']"
    by (auto simp: empty_builder_def)
  with run show ?thesis by simp
qed

section \<open>Birth places\<close>

lemma generate_city_from:
  assumes "generate_city g w = Inr (city, w')"
  shows "city = city_from g (shd (cities w))"
proof -
  from assms have "city = py_slice (py_strip (py_replace (py_replace (py_replace
      (str_upper g (shd (cities w))) (asc ''VILLE'') []) (asc ''CITY'') []) (asc ''SAN '') [])) 0 20"
    by (auto simp: generate_city_def bind_r_def choose_faker_def random_choice_def
        faker_city_def split: if_splits)
  then show ?thesis
    by (simp add: city_from_def tagged_city_erase enumerate_str_erase)
qed

lemma generate_city_some:
  "generate_city g w = Inr (city, w') \<Longrightarrow> \<exists>name. city = city_from g name"
  using generate_city_from by blast

lemma cities_ok_simps:
  "cities_ok g (parts_append s b) = cities_ok g b"
  "cities_ok g (pos_add n b) = cities_ok g b"
  "cities_ok g (entities_append s' e' l v b) =
     (cities_ok g b \<and> (l = asc ''Birth_place'' \<longrightarrow> (\<exists>name. v = city_from g name)))"
  by (auto simp: cities_ok_def parts_append_def pos_add_def entities_append_def)

lemma cities_ok_given_names: "cities_ok g b \<Longrightarrow> cities_ok g (given_names_entities i names b)"
proof (induction names arbitrary: i b)
  case Nil
  then show ?case by simp
next
  case (Cons gname rest)
  have "asc ''Surname_'' @ str_nat (i + 1) \<noteq> asc ''Birth_place''"
    by (simp add: asc_def)
  then show ?case
    using Cons.prems by (simp add: Let_def cities_ok_simps Cons.IH)
qed

lemma cities_ok_empty: "cities_ok g empty_builder"
  by (simp add: cities_ok_def empty_builder_def)

lemma cities_simple_header:
  "cities_ok g b \<Longrightarrow> simple_header g b w = Inr (b', w') \<Longrightarrow> cities_ok g b'"
  unfolding simple_header_def
  by (auto elim!: bind_r_InrE simp: Let_def cities_ok_simps asc_def)

lemma cities_simple_doc_type:
  "cities_ok g b \<Longrightarrow> simple_doc_type g b w = Inr (b', w') \<Longrightarrow> cities_ok g b'"
  unfolding simple_doc_type_def
  by (auto elim!: bind_r_InrE simp: Let_def cities_ok_simps asc_def)

lemma cities_simple_id_number:
  "cities_ok g b \<Longrightarrow> simple_id_number g b w = Inr (b', w') \<Longrightarrow> cities_ok g b'"
  unfolding simple_id_number_def
  by (auto elim!: bind_r_InrE simp: Let_def cities_ok_simps asc_def)

lemma cities_simple_nationality:
  "cities_ok g b \<Longrightarrow> simple_nationality g b w = Inr (b', w') \<Longrightarrow> cities_ok g b'"
  unfolding simple_nationality_def
  by (auto elim!: bind_r_InrE simp: Let_def cities_ok_simps asc_def)

lemma cities_simple_two_letter_code:
  "cities_ok g b \<Longrightarrow> simple_two_letter_code g surname names b w = Inr (b', w') \<Longrightarrow> cities_ok g b'"
  unfolding simple_two_letter_code_def
  by (auto simp: Let_def cities_ok_simps split: prod.splits if_splits list.splits)

lemma cities_simple_signature_noise:
  "cities_ok g b \<Longrightarrow> simple_signature_noise g b w = Inr (b', w') \<Longrightarrow> cities_ok g b'"
  unfolding simple_signature_noise_def
  by (auto elim!: bind_r_InrE simp: Let_def cities_ok_simps split: prod.splits if_splits)

lemma cities_simple_name:
  "cities_ok g b \<Longrightarrow> simple_name g surname b w = Inr (b', w') \<Longrightarrow> cities_ok g b'"
  unfolding simple_name_def
  by (auto elim!: bind_r_InrE simp: Let_def cities_ok_simps asc_def)

lemma cities_simple_social_status:
  "cities_ok g b \<Longrightarrow> simple_social_status g b w = Inr (b', w') \<Longrightarrow> cities_ok g b'"
  unfolding simple_social_status_def
  by (auto elim!: bind_r_InrE simp: Let_def cities_ok_simps asc_def split: prod.splits if_splits)

lemma cities_simple_given_names:
  "cities_ok g b \<Longrightarrow> simple_given_names g names b w = Inr (b', w') \<Longrightarrow> cities_ok g b'"
  unfolding simple_given_names_def
  by (auto elim!: bind_r_InrE simp: Let_def cities_ok_simps intro!: cities_ok_given_names)

lemma cities_simple_gender:
  "cities_ok g b \<Longrightarrow> simple_gender g b w = Inr (b', w') \<Longrightarrow> cities_ok g b'"
  unfolding simple_gender_def
  by (auto elim!: bind_r_InrE simp: Let_def cities_ok_simps asc_def)

lemma cities_simple_birth_date:
  "cities_ok g b \<Longrightarrow> simple_birth_date g b w = Inr (b', w') \<Longrightarrow> cities_ok g b'"
  unfolding simple_birth_date_def
  by (auto elim!: bind_r_InrE simp: Let_def cities_ok_simps asc_def)

lemma cities_simple_birth_place:
  "cities_ok g b \<Longrightarrow> simple_birth_place g b w = Inr (b', w') \<Longrightarrow> cities_ok g b'"
  unfolding simple_birth_place_def
  by (auto elim!: bind_r_InrE simp: Let_def cities_ok_simps split: prod.splits if_splits
      intro: generate_city_some)

lemma cities_simple_height:
  "cities_ok g b \<Longrightarrow> simple_height g b w = Inr (b', w') \<Longrightarrow> cities_ok g b'"
  unfolding simple_height_def
  by (auto elim!: bind_r_InrE simp: Let_def cities_ok_simps asc_def split: prod.splits if_splits)

lemma cities_simple_signature:
  "cities_ok g b \<Longrightarrow> simple_signature g b w = Inr (b', w') \<Longrightarrow> cities_ok g b'"
  unfolding simple_signature_def
  by (auto elim!: bind_r_InrE simp: Let_def cities_ok_simps split: prod.splits if_splits)

lemma cities_bilingual_header:
  "cities_ok g b \<Longrightarrow> bilingual_header g b w = Inr (b', w') \<Longrightarrow> cities_ok g b'"
  unfolding bilingual_header_def
  by (auto elim!: bind_r_InrE simp: Let_def cities_ok_simps asc_def)

lemma cities_bilingual_doc_type:
  "cities_ok g b \<Longrightarrow> bilingual_doc_type g b w = Inr (b', w') \<Longrightarrow> cities_ok g b'"
  unfolding bilingual_doc_type_def
  by (auto elim!: bind_r_InrE simp: Let_def cities_ok_simps asc_def)

lemma cities_bilingual_name:
  "cities_ok g b \<Longrightarrow> bilingual_name g b w = Inr (b', w') \<Longrightarrow> cities_ok g b'"
  unfolding bilingual_name_def
  by (auto elim!: bind_r_InrE simp: Let_def cities_ok_simps asc_def)

lemma cities_bilingual_given_names:
  "cities_ok g b \<Longrightarrow> bilingual_given_names g b w = Inr (b', w') \<Longrightarrow> cities_ok g b'"
  unfolding bilingual_given_names_def
  by (auto elim!: bind_r_InrE simp: Let_def cities_ok_simps split: prod.splits
      intro!: cities_ok_given_names)

lemma cities_bilingual_labels:
  "cities_ok g b \<Longrightarrow> bilingual_labels g b w = Inr (b', w') \<Longrightarrow> cities_ok g b'"
  unfolding bilingual_labels_def
  by (auto elim!: bind_r_InrE simp: Let_def cities_ok_simps)

lemma cities_bilingual_gender:
  "cities_ok g b \<Longrightarrow> bilingual_gender g b w = Inr (b', w') \<Longrightarrow> cities_ok g b'"
  unfolding bilingual_gender_def
  by (auto elim!: bind_r_InrE simp: Let_def cities_ok_simps asc_def)

lemma cities_bilingual_nationality:
  "cities_ok g b \<Longrightarrow> bilingual_nationality g b w = Inr (b', w') \<Longrightarrow> cities_ok g b'"
  unfolding bilingual_nationality_def
  by (auto elim!: bind_r_InrE simp: Let_def cities_ok_simps asc_def)

lemma cities_bilingual_birth_date:
  "cities_ok g b \<Longrightarrow> bilingual_birth_date g b w = Inr (b', w') \<Longrightarrow> cities_ok g b'"
  unfolding bilingual_birth_date_def
  by (auto elim!: bind_r_InrE simp: Let_def cities_ok_simps asc_def)

lemma cities_bilingual_birth_place:
  "cities_ok g b \<Longrightarrow> bilingual_birth_place g b w = Inr (b', w') \<Longrightarrow> cities_ok g b'"
  unfolding bilingual_birth_place_def
  by (auto elim!: bind_r_InrE simp: Let_def cities_ok_simps split: prod.splits if_splits
      intro: generate_city_some)

lemma cities_bilingual_alt_name:
  "cities_ok g b \<Longrightarrow> bilingual_alt_name g b w = Inr (b', w') \<Longrightarrow> cities_ok g b'"
  unfolding bilingual_alt_name_def
  by (auto elim!: bind_r_InrE simp: Let_def cities_ok_simps asc_def split: prod.splits if_splits)

lemma cities_bilingual_document_number:
  "cities_ok g b \<Longrightarrow> bilingual_document_number g b w = Inr (b', w') \<Longrightarrow> cities_ok g b'"
  unfolding bilingual_document_number_def
  by (auto elim!: bind_r_InrE simp: Let_def cities_ok_simps asc_def)

lemma cities_bilingual_expiry_date:
  "cities_ok g b \<Longrightarrow> bilingual_expiry_date g b w = Inr (b', w') \<Longrightarrow> cities_ok g b'"
  unfolding bilingual_expiry_date_def
  by (auto elim!: bind_r_InrE simp: Let_def cities_ok_simps asc_def split: prod.splits if_splits)

lemma cities_bilingual_support_number:
  "cities_ok g b \<Longrightarrow> bilingual_support_number g b w = Inr (b', w') \<Longrightarrow> cities_ok g b'"
  unfolding bilingual_support_number_def
  by (auto elim!: bind_r_InrE simp: Let_def cities_ok_simps asc_def split: prod.splits if_splits)

lemma simple_format_cities:
  assumes "generate_simple_format g w = Inr ((text, ents), w')"
  shows "\<forall>e\<in>set ents. ent_label e = asc ''Birth_place'' \<longrightarrow>
           (\<exists>name. ent_value e = city_from g name)"
proof -
  from assms obtain b1 w1 b2 w2 b3 w3 b4 w4 surname w5 names w6 b7 w7 b8 w8 b9 w9
    b10 w10 b11 w11 b12 w12 b13 w13 b14 w14 b15 w15 b16 w16
    where s: "simple_header g empty_builder w = Inr (b1, w1)"
      "simple_doc_type g b1 w1 = Inr (b2, w2)"
      "simple_id_number g b2 w2 = Inr (b3, w3)"
      "simple_nationality g b3 w3 = Inr (b4, w4)"
      "generate_name g w4 = Inr (surname, w5)"
      "generate_given_names g None w5 = Inr (names, w6)"
      "simple_two_letter_code g surname names b4 w6 = Inr (b7, w7)"
      "simple_signature_noise g b7 w7 = Inr (b8, w8)"
      "simple_name g surname b8 w8 = Inr (b9, w9)"
      "simple_social_status g b9 w9 = Inr (b10, w10)"
      "simple_given_names g names b10 w10 = Inr (b11, w11)"
      "simple_gender g b11 w11 = Inr (b12, w12)"
      "simple_birth_date g b12 w12 = Inr (b13, w13)"
      "simple_birth_place g b13 w13 = Inr (b14, w14)"
      "simple_height g b14 w14 = Inr (b15, w15)"
      "simple_signature g b15 w15 = Inr (b16, w16)"
      and r: "ents = entities b16"
    unfolding generate_simple_format_def
    by (elim bind_r_InrE) (simp add: Let_def)
  have "cities_ok g b1" using cities_ok_empty s(1) by (rule cities_simple_header)
  then have "cities_ok g b2" using s(2) by (rule cities_simple_doc_type)
  then have "cities_ok g b3" using s(3) by (rule cities_simple_id_number)
  then have "cities_ok g b4" using s(4) by (rule cities_simple_nationality)
  then have "cities_ok g b7" using s(7) by (rule cities_simple_two_letter_code)
  then have "cities_ok g b8" using s(8) by (rule cities_simple_signature_noise)
  then have "cities_ok g b9" using s(9) by (rule cities_simple_name)
  then have "cities_ok g b10" using s(10) by (rule cities_simple_social_status)
  then have "cities_ok g b11" using s(11) by (rule cities_simple_given_names)
  then have "cities_ok g b12" using s(12) by (rule cities_simple_gender)
  then have "cities_ok g b13" using s(13) by (rule cities_simple_birth_date)
  then have "cities_ok g b14" using s(14) by (rule cities_simple_birth_place)
  then have "cities_ok g b15" using s(15) by (rule cities_simple_height)
  then have "cities_ok g b16" using s(16) by (rule cities_simple_signature)
  with r show ?thesis by (simp add: cities_ok_def)
qed

lemma bilingual_format_cities:
  assumes "generate_bilingual_format g w = Inr ((text, ents), w')"
  shows "\<forall>e\<in>set ents. ent_label e = asc ''Birth_place'' \<longrightarrow>
           (\<exists>name. ent_value e = city_from g name)"
proof -
  from assms obtain b1 w1 b2 w2 b3 w3 b4 w4 b5 w5 b6 w6 b7 w7 b8 w8 b9 w9
    b10 w10 b11 w11 b12 w12 b13 w13
    where s: "bilingual_header g empty_builder w = Inr (b1, w1)"
      "bilingual_doc_type g b1 w1 = Inr (b2, w2)"
      "bilingual_name g b2 w2 = Inr (b3, w3)"
      "bilingual_given_names g b3 w3 = Inr (b4, w4)"
      "bilingual_labels g b4 w4 = Inr (b5, w5)"
      "bilingual_gender g b5 w5 = Inr (b6, w6)"
      "bilingual_nationality g b6 w6 = Inr (b7, w7)"
      "bilingual_birth_date g b7 w7 = Inr (b8, w8)"
      "bilingual_birth_place g b8 w8 = Inr (b9, w9)"
      "bilingual_alt_name g b9 w9 = Inr (b10, w10)"
      "bilingual_document_number g b10 w10 = Inr (b11, w11)"
      "bilingual_expiry_date g b11 w11 = Inr (b12, w12)"
      "bilingual_support_number g b12 w12 = Inr (b13, w13)"
      and r: "ents = entities b13"
    unfolding generate_bilingual_format_def
    by (elim bind_r_InrE) (simp add: Let_def)
  have "cities_ok g b1" using cities_ok_empty s(1) by (rule cities_bilingual_header)
  then have "cities_ok g b2" using s(2) by (rule cities_bilingual_doc_type)
  then have "cities_ok g b3" using s(3) by (rule cities_bilingual_name)
  then have "cities_ok g b4" using s(4) by (rule cities_bilingual_given_names)
  then have "cities_ok g b5" using s(5) by (rule cities_bilingual_labels)
  then have "cities_ok g b6" using s(6) by (rule cities_bilingual_gender)
  then have "cities_ok g b7" using s(7) by (rule cities_bilingual_nationality)
  then have "cities_ok g b8" using s(8) by (rule cities_bilingual_birth_date)
  then have "cities_ok g b9" using s(9) by (rule cities_bilingual_birth_place)
  then have "cities_ok g b10" using s(10) by (rule cities_bilingual_alt_name)
  then have "cities_ok g b11" using s(11) by (rule cities_bilingual_document_number)
  then have "cities_ok g b12" using s(12) by (rule cities_bilingual_expiry_date)
  then have "cities_ok g b13" using s(13) by (rule cities_bilingual_support_number)
  with r show ?thesis by (simp add: cities_ok_def)
qed

lemma city_from_shape:
  fixes g name
  defines "full \<equiv> py_strip (py_replace (py_replace (py_replace (str_upper g name)
      (asc ''VILLE'') []) (asc ''CITY'') []) (asc ''SAN '') [])"
  shows "city_from g name = take 20 full"
    and "full \<noteq> [] \<longrightarrow> \<not> py_isspace (hd full) \<and> \<not> py_isspace (last full)"
    and "city_from g name \<noteq> [] \<longrightarrow> \<not> py_isspace (hd (city_from g name))"
    and "city_from g name \<noteq> [] \<and> length (city_from g name) < 20 \<longrightarrow>
         \<not> py_isspace (last (city_from g name))"
proof -
  show c: "city_from g name = take 20 full"
    by (simp add: city_from_def tagged_city_erase enumerate_str_erase py_slice_20 full_def)
  show h: "full \<noteq> [] \<longrightarrow> \<not> py_isspace (hd full) \<and> \<not> py_isspace (last full)"
    unfolding full_def using py_strip_hd py_strip_last by blast
  show "city_from g name \<noteq> [] \<longrightarrow> \<not> py_isspace (hd (city_from g name))"
    using c h by (cases full) auto
  show "city_from g name \<noteq> [] \<and> length (city_from g name) < 20 \<longrightarrow>
      \<not> py_isspace (last (city_from g name))"
  proof
    assume a: "city_from g name \<noteq> [] \<and> length (city_from g name) < 20"
    then have "length full < 20" using c by (simp add: min_def split: if_splits)
    then have "city_from g name = full" using c by simp
    with a h show "\<not> py_isspace (last (city_from g name))" by simp
  qed
qed

text \<open>
  Claim C9. A city returned by \<open>generate_city\<close>, and so the value of every
  Birth\_place entity of either format, comes from a provider's name: it has at most 20
  characters; no character of any occurrence of VILLE, CITY or \<open>SAN \<close> in the upper-cased
  name is still in it; it is the first 20 characters of the stripped string, which has
  neither leading nor trailing whitespace, so it has no leading whitespace, and no
  trailing whitespace unless it was cut at 20.
\<close>

theorem generate_city_clean:
  assumes "generate_city g w = Inr (city, w') \<or>
           ((generate_simple_format g w = Inr ((text, ents), w') \<or>
             generate_bilingual_format g w = Inr ((text, ents), w')) \<and>
            (\<exists>e\<in>set ents. ent_label e = asc ''Birth_place'' \<and> ent_value e = city))"
  shows "\<exists>name.
           (generate_city g w = Inr (city, w') \<longrightarrow> name = shd (cities w)) \<and>
           city = map snd (tagged_city (enumerate_str (str_upper g name))) \<and>
           length city \<le> 20 \<and>
           (\<forall>a m c.
              enumerate_str (str_upper g name) = a @ m @ c \<and>
              map snd m \<in> {asc ''VILLE'', asc ''CITY'', asc ''SAN ''} \<longrightarrow>
              set m \<inter> set (tagged_city (enumerate_str (str_upper g name))) = {}) \<and>
           (city \<noteq> [] \<longrightarrow> \<not> py_isspace (hd city)) \<and>
           (city \<noteq> [] \<and> length city < 20 \<longrightarrow> \<not> py_isspace (last city)) \<and>
           (\<exists>full. city = take 20 full \<and>
              (full \<noteq> [] \<longrightarrow> \<not> py_isspace (hd full) \<and> \<not> py_isspace (last full)))"
proof -
  have "\<exists>name. city = city_from g name \<and>
      (generate_city g w = Inr (city, w') \<longrightarrow> name = shd (cities w))"
  proof (cases "generate_city g w = Inr (city, w')")
    case True
    then show ?thesis using generate_city_from by blast
  next
    case False
    with assms obtain e where e: "e \<in> set ents" "ent_label e = asc ''Birth_place''"
        "ent_value e = city"
      and run: "generate_simple_format g w = Inr ((text, ents), w') \<or>
        generate_bilingual_format g w = Inr ((text, ents), w')"
      by blast
    from run have "\<forall>e\<in>set ents. ent_label e = asc ''Birth_place'' \<longrightarrow>
        (\<exists>name. ent_value e = city_from g name)"
      using simple_format_cities bilingual_format_cities by blast
    with e False show ?thesis by blast
  qed
  then obtain name where n: "city = city_from g name"
    "generate_city g w = Inr (city, w') \<longrightarrow> name = shd (cities w)" by blast
  let ?ts = "enumerate_str (str_upper g name)"
  have c: "city = map snd (tagged_city ?ts)" using n(1) by (simp add: city_from_def)
  have l: "length city \<le> 20" unfolding c by (simp add: tagged_city_def)
  have r: "\<forall>a m c. ?ts = a @ m @ c \<and> map snd m \<in> {asc ''VILLE'', asc ''CITY'', asc ''SAN ''} \<longrightarrow>
      set m \<inter> set (tagged_city ?ts) = {}"
    using tagged_city_removes [OF enumerate_str_distinct] by blast
  have s: "city \<noteq> [] \<longrightarrow> \<not> py_isspace (hd city)"
    "city \<noteq> [] \<and> length city < 20 \<longrightarrow> \<not> py_isspace (last city)"
    unfolding n(1) by (rule city_from_shape)+
  have f: "\<exists>full. city = take 20 full \<and>
      (full \<noteq> [] \<longrightarrow> \<not> py_isspace (hd full) \<and> \<not> py_isspace (last full))"
    unfolding n(1) using city_from_shape(1,2) [of g name] by blast
  show ?thesis using n(2) c l r s f by blast
qed

lemma long_city_tagged:
  "enumerate_str (upper_ascii long_city_name) =
     [(0, 83), (1, 65), (2, 78), (3, 32), (4, 86), (5, 73), (6, 76), (7, 76), (8, 69),
      (9, 67), (10, 73), (11, 84), (12, 89), (13, 32), (14, 79), (15, 70), (16, 32),
      (17, 84), (18, 72), (19, 69), (20, 32), (21, 86), (22, 69), (23, 82), (24, 89),
      (25, 32), (26, 76), (27, 79), (28, 78), (29, 71), (30, 32), (31, 78), (32, 65),
      (33, 77), (34, 69), (35, 32), (36, 32)]"
  by (simp add: enumerate_str_def upper_ascii_def long_city_name_def asc_def upt_rec_numeral)

lemma long_city_run:
  "generate_city quiet_generator long_city_world =
     Inr (asc ''OF THE VERY LONG NAM'', long_city_world)"
  by (simp add: generate_city_def bind_r_def choose_faker_def random_choice_def faker_city_def
      quiet_generator_def fixed_world_def long_city_world_def long_city_name_def py_slice_20
      py_strip_def py_replace_def asc_def upper_ascii_def py_isspace_def)

theorem generate_city_clean_witness:
  "generate_city quiet_generator long_city_world =
     Inr (asc ''OF THE VERY LONG NAM'', long_city_world) \<and>
   length (asc ''OF THE VERY LONG NAM'') \<le> 20 \<and>
   set [(0, 83), (1, 65), (2, 78), (3, 32)] \<inter>
     set (tagged_city (enumerate_str (upper_ascii long_city_name))) = {} \<and>
   set [(4, 86), (5, 73), (6, 76), (7, 76), (8, 69)] \<inter>
     set (tagged_city (enumerate_str (upper_ascii long_city_name))) = {} \<and>
   set [(9, 67), (10, 73), (11, 84), (12, 89)] \<inter>
     set (tagged_city (enumerate_str (upper_ascii long_city_name))) = {} \<and>
   ent_label (quiet_simple_entities ! 9) = asc ''Birth_place'' \<and>
   (\<exists>name. ent_value (quiet_simple_entities ! 9) =
      map snd (tagged_city (enumerate_str (upper_ascii name))))"
proof -
  let ?ts = "enumerate_str (upper_ascii long_city_name)"
  let ?city = "asc ''OF THE VERY LONG NAM''"
  have up: "str_upper quiet_generator = upper_ascii" by (simp add: quiet_generator_def)
  have nm: "shd (cities long_city_world) = long_city_name"
    by (simp add: long_city_world_def)
  from generate_city_clean [of quiet_generator long_city_world ?city long_city_world]
    long_city_run
  obtain name where n: "name = shd (cities long_city_world)"
    and l: "length ?city \<le> 20"
    and r: "\<forall>a m c. enumerate_str (str_upper quiet_generator name) = a @ m @ c \<and>
        map snd m \<in> {asc ''VILLE'', asc ''CITY'', asc ''SAN ''} \<longrightarrow>
        set m \<inter> set (tagged_city (enumerate_str (str_upper quiet_generator name))) = {}"
    by blast
  have r': "\<And>a m c. ?ts = a @ m @ c \<Longrightarrow>
      map snd m \<in> {asc ''VILLE'', asc ''CITY'', asc ''SAN ''} \<Longrightarrow>
      set m \<inter> set (tagged_city ?ts) = {}"
    using r n nm up by simp
  have san: "set [(0, 83), (1, 65), (2, 78), (3, 32)] \<inter> set (tagged_city ?ts) = {}"
    by (rule r' [of "[]" _ "drop 4 ?ts"]) (simp_all add: long_city_tagged asc_def)
  have ville: "set [(4, 86), (5, 73), (6, 76), (7, 76), (8, 69)] \<inter> set (tagged_city ?ts) = {}"
    by (rule r' [of "take 4 ?ts" _ "drop 9 ?ts"]) (simp_all add: long_city_tagged asc_def)
  have city: "set [(9, 67), (10, 73), (11, 84), (12, 89)] \<inter> set (tagged_city ?ts) = {}"
    by (rule r' [of "take 9 ?ts" _ "drop 13 ?ts"]) (simp_all add: long_city_tagged asc_def)
  have lab: "ent_label (quiet_simple_entities ! 9) = asc ''Birth_place''"
    by (simp add: quiet_simple_entities_def)
  have mem: "quiet_simple_entities ! 9 \<in> set quiet_simple_entities"
    by (simp add: quiet_simple_entities_def)
  have "\<exists>name. ent_value (quiet_simple_entities ! 9) =
      map snd (tagged_city (enumerate_str (str_upper quiet_generator name)))"
    using generate_city_clean [of quiet_generator "fixed_world 0"
        "ent_value (quiet_simple_entities ! 9)" "fixed_world 0" quiet_simple_text
        quiet_simple_entities]
      quiet_simple_run lab mem by blast
  then have ent: "\<exists>name. ent_value (quiet_simple_entities ! 9) =
      map snd (tagged_city (enumerate_str (upper_ascii name)))"
    using up by simp
  show ?thesis using long_city_run l san ville city lab ent by blast
qed

end
